theory Spec2Isabelle
  imports Main
begin

section \<open>Data model\<close>

text \<open>
  The server of the knowledge base (TypeScript) is embedded function by function.
  Time stamps (ISO strings in the source, compared as dates) are natural numbers of
  milliseconds; \<open>new Date()\<close> and \<open>uuidv4()\<close> are inputs of the operation that calls
  them (\<open>now\<close>, \<open>newId\<close>). Every write to the file system is taken to succeed, so a
  repository is the content of its directory: a map from file name to record.
  Errors thrown by the source are values of \<open>AppError\<close>, returned on the left of a sum.
\<close>

subsection \<open>models/User.ts\<close>

datatype UserRole = reader | actor | author | editor

datatype Permission =
    article_view_published
  | article_view_draft_own
  | article_view_draft_all
  | article_create
  | article_edit_own
  | article_edit_all
  | article_delete_own
  | article_delete_all
  | article_publish_own
  | article_publish_all
  | article_archive
  | article_restore_own
  | article_restore_all
  | article_version_view
  | article_version_restore_own
  | article_version_restore_all
  | comment_view
  | comment_create
  | comment_edit_own
  | comment_edit_all
  | comment_delete_own
  | comment_delete_all
  | search_basic
  | search_advanced

record User =
  uid :: string
  email :: string
  displayName :: string
  role :: UserRole

fun ROLE_PERMISSIONS :: "UserRole \<Rightarrow> Permission list" where
  "ROLE_PERMISSIONS reader =
     [article_view_published, article_version_view, comment_view, search_basic]"
| "ROLE_PERMISSIONS actor =
     [article_view_published, article_version_view, comment_view, comment_create,
      comment_edit_own, comment_delete_own, search_basic]"
| "ROLE_PERMISSIONS author =
     [article_view_published, article_view_draft_own, article_create, article_edit_own,
      article_delete_own, article_publish_own, article_restore_own, article_version_view,
      article_version_restore_own, comment_view, comment_create, comment_edit_own,
      comment_delete_own, search_basic, search_advanced]"
| "ROLE_PERMISSIONS editor =
     [article_view_published, article_view_draft_own, article_view_draft_all,
      article_create, article_edit_own, article_edit_all, article_delete_own,
      article_delete_all, article_publish_own, article_publish_all, article_archive,
      article_restore_own, article_restore_all, article_version_view,
      article_version_restore_own, article_version_restore_all, comment_view,
      comment_create, comment_edit_own, comment_edit_all, comment_delete_own,
      comment_delete_all, search_basic, search_advanced]"

definition hasPermission :: "User \<Rightarrow> Permission \<Rightarrow> bool" where
  "hasPermission user permission = (permission \<in> set (ROLE_PERMISSIONS (role user)))"

subsection \<open>models/Article.ts, Version.ts, Lock.ts, Category.ts, Comment.ts\<close>

datatype ArticleStatus = draft | published | archived | deleted

datatype ContentFormat = markdown | richtext

record ArticleMetadata =
  viewCount :: nat
  contentFormat :: ContentFormat
  lastViewedAt :: "nat option"
  lastViewedBy :: "string option"

record Article =
  aid :: string
  briefTitle :: string
  detailedDescription :: string
  category :: string
  tags :: "string list"
  relatedArticles :: "string list"
  status :: ArticleStatus
  authorId :: string
  authorName :: string
  createdAt :: nat
  updatedAt :: nat
  publishedAt :: "nat option"
  expirationDate :: "string option"
  version :: nat
  lockedBy :: "string option"
  lockedByName :: "string option"
  lockedAt :: "nat option"
  metadata :: ArticleMetadata

record CreateArticleInput =
  c_briefTitle :: string
  c_detailedDescription :: string
  c_category :: string
  c_tags :: "string list option"
  c_relatedArticles :: "string list option"
  c_status :: "ArticleStatus option"
  c_expirationDate :: "string option"
  c_contentFormat :: "ContentFormat option"

text \<open>
  \<open>UpdateArticleInput\<close> declares the first seven fields. The value that reaches
  \<open>FileArticleRepository.update\<close> from \<open>PUT /api/articles/:id\<close> is the request body,
  cast and not copied: \<open>validateBody\<close> looks only at the keys of its schema and removes
  none, so the object may carry any other key of \<open>Article\<close>, and the repository spreads
  all of them. The record therefore has an optional field for every key of \<open>Article\<close>
  that survives the spread (\<open>updatedAt\<close>, \<open>version\<close> and \<open>publishedAt\<close> are assigned after
  it). A present value has the type of the article's field: JSON \<open>null\<close> and values of
  another type are not represented, nor are keys that \<open>Article\<close> does not have.
\<close>

record UpdateArticleInput =
  u_briefTitle :: "string option"
  u_detailedDescription :: "string option"
  u_category :: "string option"
  u_tags :: "string list option"
  u_relatedArticles :: "string list option"
  u_status :: "ArticleStatus option"
  u_expirationDate :: "string option"
  u_id :: "string option"
  u_authorId :: "string option"
  u_authorName :: "string option"
  u_createdAt :: "nat option"
  u_lockedBy :: "string option"
  u_lockedByName :: "string option"
  u_lockedAt :: "nat option"
  u_metadata :: "ArticleMetadata option"

record ArticleVersion =
  v_id :: string
  v_articleId :: string
  v_version :: nat
  v_briefTitle :: string
  v_detailedDescription :: string
  v_category :: string
  v_tags :: "string list"
  v_relatedArticles :: "string list"
  v_status :: ArticleStatus
  changedBy :: string
  changedByName :: string
  changedAt :: nat
  changeReason :: "string option"
  changeSummary :: "string option"

record ArticleLock =
  l_articleId :: string
  l_lockedBy :: string
  l_lockedByName :: string
  l_lockedAt :: nat
  expiresAt :: nat

record LockStatusResponse =
  isLocked :: bool
  ls_lock :: "ArticleLock option"
  canEdit :: bool
  ls_message :: "string option"

record LockAcquisitionResult =
  success :: bool
  la_lock :: "ArticleLock option"
  la_message :: string

record Category =
  cat_id :: string
  cat_name :: string
  cat_description :: "string option"
  cat_order :: nat
  articleCount :: int

record Comment =
  cm_id :: string
  cm_articleId :: string
  cm_authorId :: string
  cm_authorName :: string
  cm_content :: string
  cm_createdAt :: nat
  isEdited :: bool

subsection \<open>utils/errors.ts\<close>

datatype AppError =
    BadRequestError string
  | UnauthorizedError string
  | ForbiddenError string
  | NotFoundError string string
  | ConflictError string
  | ValidationError "(string \<times> string list) list"
  | PlainError string

fun statusCode :: "AppError \<Rightarrow> nat" where
  "statusCode (BadRequestError m) = 400"
| "statusCode (UnauthorizedError m) = 401"
| "statusCode (ForbiddenError m) = 403"
| "statusCode (NotFoundError r i) = 404"
| "statusCode (ConflictError m) = 409"
| "statusCode (ValidationError es) = 422"
| "statusCode (PlainError m) = 500"

subsection \<open>The persisted state\<close>

text \<open>
  \<open>articles\<close> is the article cache of \<open>FileArticleRepository\<close> (every file is loaded
  into it and every save updates it, so it is what \<open>findById\<close> answers from);
  \<open>versionFiles i n\<close> is the file \<open>versions/i/vn.json\<close>; \<open>lockFiles i\<close> is
  \<open>locks/i.lock.json\<close>; \<open>categories\<close> is the array of \<open>categories.json\<close>;
  \<open>commentFiles i\<close> is the array of \<open>comments/i.json\<close> (empty when the file is absent).
\<close>

record State =
  articles :: "string \<rightharpoonup> Article"
  versionFiles :: "string \<Rightarrow> (nat \<rightharpoonup> ArticleVersion)"
  lockFiles :: "string \<rightharpoonup> ArticleLock"
  categories :: "Category list"
  commentFiles :: "string \<Rightarrow> Comment list"

section \<open>Repositories\<close>

subsection \<open>FileArticleRepository\<close>

definition FileArticleRepository_create ::
  "State \<Rightarrow> nat \<Rightarrow> string \<Rightarrow> CreateArticleInput \<Rightarrow> string \<Rightarrow> string \<Rightarrow> Article \<times> State" where
  "FileArticleRepository_create s now newId input byId byName =
     (let article = \<lparr>
        aid = newId,
        briefTitle = c_briefTitle input,
        detailedDescription = c_detailedDescription input,
        category = c_category input,
        tags = (case c_tags input of None \<Rightarrow> [] | Some ts \<Rightarrow> ts),
        relatedArticles = (case c_relatedArticles input of None \<Rightarrow> [] | Some rs \<Rightarrow> rs),
        status = (case c_status input of None \<Rightarrow> draft | Some st \<Rightarrow> st),
        authorId = byId,
        authorName = byName,
        createdAt = now,
        updatedAt = now,
        publishedAt = (if c_status input = Some published then Some now else None),
        expirationDate = c_expirationDate input,
        version = 1,
        lockedBy = None,
        lockedByName = None,
        lockedAt = None,
        metadata = \<lparr>
          viewCount = 0,
          contentFormat = (case c_contentFormat input of None \<Rightarrow> richtext | Some f \<Rightarrow> f),
          lastViewedAt = None,
          lastViewedBy = None \<rparr> \<rparr>
      in (article, s\<lparr>articles := (articles s)(aid article \<mapsto> article)\<rparr>))"

definition findById :: "State \<Rightarrow> string \<Rightarrow> Article option" where
  "findById s articleId = articles s articleId"

definition exists :: "State \<Rightarrow> string \<Rightarrow> bool" where
  "exists s articleId = (findById s articleId \<noteq> None)"

text \<open>The object spread \<open>{...article, ...input}\<close>: a field present in the input replaces
  the article's, the \<open>id\<close> like any other.\<close>

definition spreadInput :: "Article \<Rightarrow> UpdateArticleInput \<Rightarrow> Article" where
  "spreadInput article input = article\<lparr>
     briefTitle := (case u_briefTitle input of None \<Rightarrow> briefTitle article | Some x \<Rightarrow> x),
     detailedDescription :=
       (case u_detailedDescription input of None \<Rightarrow> detailedDescription article | Some x \<Rightarrow> x),
     category := (case u_category input of None \<Rightarrow> category article | Some x \<Rightarrow> x),
     tags := (case u_tags input of None \<Rightarrow> tags article | Some x \<Rightarrow> x),
     relatedArticles :=
       (case u_relatedArticles input of None \<Rightarrow> relatedArticles article | Some x \<Rightarrow> x),
     status := (case u_status input of None \<Rightarrow> status article | Some x \<Rightarrow> x),
     expirationDate :=
       (case u_expirationDate input of None \<Rightarrow> expirationDate article | Some x \<Rightarrow> Some x),
     aid := (case u_id input of None \<Rightarrow> aid article | Some x \<Rightarrow> x),
     authorId := (case u_authorId input of None \<Rightarrow> authorId article | Some x \<Rightarrow> x),
     authorName := (case u_authorName input of None \<Rightarrow> authorName article | Some x \<Rightarrow> x),
     createdAt := (case u_createdAt input of None \<Rightarrow> createdAt article | Some x \<Rightarrow> x),
     lockedBy := (case u_lockedBy input of None \<Rightarrow> lockedBy article | Some x \<Rightarrow> Some x),
     lockedByName :=
       (case u_lockedByName input of None \<Rightarrow> lockedByName article | Some x \<Rightarrow> Some x),
     lockedAt := (case u_lockedAt input of None \<Rightarrow> lockedAt article | Some x \<Rightarrow> Some x),
     metadata := (case u_metadata input of None \<Rightarrow> metadata article | Some x \<Rightarrow> x) \<rparr>"

definition FileArticleRepository_update ::
  "State \<Rightarrow> nat \<Rightarrow> string \<Rightarrow> UpdateArticleInput \<Rightarrow> AppError + (Article \<times> State)" where
  "FileArticleRepository_update s now articleId input =
     (case findById s articleId of
        None \<Rightarrow> Inl (NotFoundError ''Article'' articleId)
      | Some article \<Rightarrow>
          let updatedArticle = (spreadInput article input)\<lparr>
                updatedAt := now,
                version := version article + 1,
                publishedAt :=
                  (if u_status input = Some published \<and> publishedAt article = None
                   then Some now else publishedAt article) \<rparr>
          in Inr (updatedArticle,
                  s\<lparr>articles := (articles s)(aid updatedArticle \<mapsto> updatedArticle)\<rparr>))"

definition noInput :: UpdateArticleInput where
  "noInput = \<lparr> u_briefTitle = None, u_detailedDescription = None, u_category = None,
     u_tags = None, u_relatedArticles = None, u_status = None, u_expirationDate = None,
     u_id = None, u_authorId = None, u_authorName = None, u_createdAt = None,
     u_lockedBy = None, u_lockedByName = None, u_lockedAt = None, u_metadata = None \<rparr>"

definition softDelete :: "State \<Rightarrow> nat \<Rightarrow> string \<Rightarrow> AppError + (Article \<times> State)" where
  "softDelete s now articleId =
     (case findById s articleId of
        None \<Rightarrow> Inl (NotFoundError ''Article'' articleId)
      | Some article \<Rightarrow>
          FileArticleRepository_update s now articleId (noInput\<lparr>u_status := Some deleted\<rparr>))"

definition hardDelete :: "State \<Rightarrow> string \<Rightarrow> AppError + State" where
  "hardDelete s articleId =
     (if \<not> exists s articleId then Inl (NotFoundError ''Article'' articleId)
      else Inr (s\<lparr>articles := (articles s)(articleId := None)\<rparr>))"

definition FileArticleRepository_restore ::
  "State \<Rightarrow> nat \<Rightarrow> string \<Rightarrow> AppError + (Article \<times> State)" where
  "FileArticleRepository_restore s now articleId =
     (case findById s articleId of
        None \<Rightarrow> Inl (NotFoundError ''Article'' articleId)
      | Some article \<Rightarrow>
          if status article \<noteq> deleted then Inl (PlainError ''Article is not deleted'')
          else FileArticleRepository_update s now articleId (noInput\<lparr>u_status := Some draft\<rparr>))"

text \<open>\<open>incrementViewCount\<close> mutates the cached object and writes it back under the
  requested id; \<open>if (viewedBy)\<close> is false for an absent or empty user id.\<close>

definition incrementViewCount ::
  "State \<Rightarrow> nat \<Rightarrow> string \<Rightarrow> string option \<Rightarrow> AppError + (Article \<times> State)" where
  "incrementViewCount s now articleId viewedBy =
     (case findById s articleId of
        None \<Rightarrow> Inl (NotFoundError ''Article'' articleId)
      | Some article \<Rightarrow>
          let m = metadata article;
              m1 = m\<lparr>viewCount := viewCount m + 1\<rparr>;
              m2 = (case viewedBy of
                      None \<Rightarrow> m1
                    | Some u \<Rightarrow> if u = [] then m1
                               else m1\<lparr>lastViewedBy := Some u, lastViewedAt := Some now\<rparr>);
              article' = article\<lparr>metadata := m2\<rparr>
          in Inr (article', s\<lparr>articles := (articles s)(articleId \<mapsto> article')\<rparr>))"

subsection \<open>FileVersionRepository and createVersionFromArticle\<close>

definition digitChar :: "nat \<Rightarrow> char" where
  "digitChar n = ''0123456789'' ! n"

text \<open>The decimal digits of a number, as a template literal prints it.\<close>

function numberToString :: "nat \<Rightarrow> string" where
  "numberToString n =
     (if n < 10 then [digitChar n] else numberToString (n div 10) @ [digitChar (n mod 10)])"
  by pat_completeness auto
termination
  by (relation "measure (\<lambda>n. n)") auto

declare numberToString.simps [simp del]

fun joinWith :: "string \<Rightarrow> string list \<Rightarrow> string" where
  "joinWith sep [] = []"
| "joinWith sep [x] = x"
| "joinWith sep (x # y # ys) = x @ sep @ joinWith sep (y # ys)"

definition generateChangeSummary :: "Article \<Rightarrow> string" where
  "generateChangeSummary article =
     (let parts1 = (if version article = 1 then [''Initial version created'']
                    else [''Updated to version '' @ numberToString (version article)]);
          parts2 = (if status article = published then parts1 @ [''Published'']
                    else if status article = archived then parts1 @ [''Archived'']
                    else parts1)
      in joinWith ''. '' parts2)"

definition createVersionFromArticle ::
  "Article \<Rightarrow> string \<Rightarrow> string \<Rightarrow> string option \<Rightarrow> nat \<Rightarrow> string \<Rightarrow> ArticleVersion" where
  "createVersionFromArticle article byId byName reason now newId = \<lparr>
     v_id = newId,
     v_articleId = aid article,
     v_version = version article,
     v_briefTitle = briefTitle article,
     v_detailedDescription = detailedDescription article,
     v_category = category article,
     v_tags = tags article,
     v_relatedArticles = relatedArticles article,
     v_status = status article,
     changedBy = byId,
     changedByName = byName,
     changedAt = now,
     changeReason = reason,
     changeSummary = Some (generateChangeSummary article) \<rparr>"

text \<open>\<open>createVersion\<close> writes \<open>versions/{article.id}/v{version}.json\<close> with
  \<open>fs.writeFile\<close>, which creates the file or replaces its content.\<close>

definition createVersion ::
  "State \<Rightarrow> nat \<Rightarrow> string \<Rightarrow> Article \<Rightarrow> string \<Rightarrow> string \<Rightarrow> string option
     \<Rightarrow> ArticleVersion \<times> State" where
  "createVersion s now newId article byId byName reason =
     (let v = createVersionFromArticle article byId byName reason now newId;
          dir = versionFiles s (aid article)
      in (v, s\<lparr>versionFiles := (versionFiles s)(aid article := dir(v_version v \<mapsto> v))\<rparr>))"

definition getVersion :: "State \<Rightarrow> string \<Rightarrow> nat \<Rightarrow> ArticleVersion option" where
  "getVersion s articleId n = versionFiles s articleId n"

definition deleteVersions :: "State \<Rightarrow> string \<Rightarrow> State" where
  "deleteVersions s articleId = s\<lparr>versionFiles := (versionFiles s)(articleId := Map.empty)\<rparr>"

text \<open>The number of version records stored for an article: the files of its directory.\<close>

definition versionCount :: "State \<Rightarrow> string \<Rightarrow> nat" where
  "versionCount s articleId = card (dom (versionFiles s articleId))"

subsection \<open>FileLockRepository\<close>

definition loadLock :: "State \<Rightarrow> string \<Rightarrow> ArticleLock option" where
  "loadLock s articleId = lockFiles s articleId"

definition saveLock :: "State \<Rightarrow> ArticleLock \<Rightarrow> State" where
  "saveLock s lk = s\<lparr>lockFiles := (lockFiles s)(l_articleId lk \<mapsto> lk)\<rparr>"

definition deleteLock :: "State \<Rightarrow> string \<Rightarrow> State" where
  "deleteLock s articleId = s\<lparr>lockFiles := (lockFiles s)(articleId := None)\<rparr>"

definition isExpired :: "nat \<Rightarrow> ArticleLock \<Rightarrow> bool" where
  "isExpired now lk = (expiresAt lk < now)"

text \<open>\<open>timeoutMs\<close> is \<open>config.locking.timeoutMs\<close>, read from the environment. One call
  of \<open>acquireLock\<close> reads the clock in \<open>isExpired\<close> and again in \<open>createLock\<close>; the
  two readings are taken to be the same instant \<open>now\<close>.\<close>

definition createLock :: "nat \<Rightarrow> nat \<Rightarrow> string \<Rightarrow> string \<Rightarrow> string \<Rightarrow> ArticleLock" where
  "createLock timeoutMs now articleId userId userName = \<lparr>
     l_articleId = articleId,
     l_lockedBy = userId,
     l_lockedByName = userName,
     l_lockedAt = now,
     expiresAt = now + timeoutMs \<rparr>"

definition acquireLock ::
  "State \<Rightarrow> nat \<Rightarrow> nat \<Rightarrow> string \<Rightarrow> string \<Rightarrow> string \<Rightarrow> LockAcquisitionResult \<times> State" where
  "acquireLock s timeoutMs now articleId userId userName =
     (case loadLock s articleId of
        Some existingLock \<Rightarrow>
          if \<not> isExpired now existingLock then
            (if l_lockedBy existingLock = userId then
               (let renewedLock = createLock timeoutMs now articleId userId userName
                in (\<lparr> success = True, la_lock = Some renewedLock,
                       la_message = ''Lock renewed successfully'' \<rparr>,
                    saveLock s renewedLock))
             else
               (\<lparr> success = False, la_lock = Some existingLock,
                   la_message = ''Article is currently being edited by ''
                                 @ l_lockedByName existingLock \<rparr>, s))
          else
            (let newLock = createLock timeoutMs now articleId userId userName
             in (\<lparr> success = True, la_lock = Some newLock,
                    la_message = ''Lock acquired successfully'' \<rparr>,
                 saveLock s newLock))
      | None \<Rightarrow>
          (let newLock = createLock timeoutMs now articleId userId userName
           in (\<lparr> success = True, la_lock = Some newLock,
                  la_message = ''Lock acquired successfully'' \<rparr>,
               saveLock s newLock)))"

definition releaseLock :: "State \<Rightarrow> string \<Rightarrow> string \<Rightarrow> bool \<times> State" where
  "releaseLock s articleId userId =
     (case loadLock s articleId of
        None \<Rightarrow> (True, s)
      | Some existingLock \<Rightarrow>
          if l_lockedBy existingLock \<noteq> userId then (False, s)
          else (True, deleteLock s articleId))"

definition getLockStatus :: "State \<Rightarrow> nat \<Rightarrow> string \<Rightarrow> string \<Rightarrow> LockStatusResponse \<times> State" where
  "getLockStatus s now articleId userId =
     (case loadLock s articleId of
        None \<Rightarrow> (\<lparr> isLocked = False, ls_lock = None, canEdit = True, ls_message = None \<rparr>, s)
      | Some lk \<Rightarrow>
          if isExpired now lk then
            (\<lparr> isLocked = False, ls_lock = None, canEdit = True,
                ls_message = Some ''Previous edit lock has expired'' \<rparr>,
             deleteLock s articleId)
          else
            (let mine = (l_lockedBy lk = userId)
             in (\<lparr> isLocked = True, ls_lock = Some lk, canEdit = mine,
                    ls_message = Some (if mine then ''You have the edit lock''
                                       else ''Article is being edited by '' @ l_lockedByName lk) \<rparr>,
                 s)))"

subsection \<open>FileCategoryRepository\<close>

text \<open>\<open>categories.find(c => c.name === categoryName)\<close> is the first category of that
  name; \<open>updateArticleCount\<close> assigns to that object and saves the array.\<close>

definition findCategory :: "Category list \<Rightarrow> string \<Rightarrow> Category option" where
  "findCategory cats categoryName = List.find (\<lambda>c. cat_name c = categoryName) cats"

fun assignFirst :: "Category list \<Rightarrow> string \<Rightarrow> int \<Rightarrow> Category list" where
  "assignFirst [] categoryName n = []"
| "assignFirst (c # cs) categoryName n =
     (if cat_name c = categoryName then c\<lparr>articleCount := n\<rparr> # cs
      else c # assignFirst cs categoryName n)"

definition updateArticleCount :: "State \<Rightarrow> string \<Rightarrow> int \<Rightarrow> State" where
  "updateArticleCount s categoryName delta =
     (case findCategory (categories s) categoryName of
        None \<Rightarrow> s
      | Some c \<Rightarrow>
          s\<lparr>categories :=
              assignFirst (categories s) categoryName (max 0 (articleCount c + delta))\<rparr>)"

subsection \<open>FileCommentRepository\<close>

definition FileCommentRepository_create ::
  "State \<Rightarrow> nat \<Rightarrow> string \<Rightarrow> string \<Rightarrow> string \<Rightarrow> string \<Rightarrow> string \<Rightarrow> Comment \<times> State" where
  "FileCommentRepository_create s now newId articleId content byId byName =
     (let comment = \<lparr> cm_id = newId, cm_articleId = articleId, cm_authorId = byId,
            cm_authorName = byName, cm_content = content, cm_createdAt = now,
            isEdited = False \<rparr>
      in (comment,
          s\<lparr>commentFiles := (commentFiles s)(articleId := commentFiles s articleId @ [comment])\<rparr>))"

section \<open>Services\<close>

text \<open>
  A service call returns its result, or the error it throws, together with the state it
  leaves behind: the writes made before a throw are not undone.
\<close>

subsection \<open>ArticleService\<close>

definition TITLE_MIN_LENGTH :: nat where "TITLE_MIN_LENGTH = 3"
definition TITLE_MAX_LENGTH :: nat where "TITLE_MAX_LENGTH = 150"
definition DESCRIPTION_MIN_LENGTH :: nat where "DESCRIPTION_MIN_LENGTH = 10"
definition DESCRIPTION_MAX_LENGTH :: nat where "DESCRIPTION_MAX_LENGTH = 50000"
definition CATEGORY_MAX_LENGTH :: nat where "CATEGORY_MAX_LENGTH = 50"
definition TAG_MAX_LENGTH :: nat where "TAG_MAX_LENGTH = 30"
definition MAX_TAGS :: nat where "MAX_TAGS = 10"
definition MAX_RELATED_ARTICLES :: nat where "MAX_RELATED_ARTICLES = 10"

text \<open>A \<open>CreateArticleInput\<close> read as the union type \<open>validateArticleInput\<close> takes.\<close>

definition asUpdateInput :: "CreateArticleInput \<Rightarrow> UpdateArticleInput" where
  "asUpdateInput input = \<lparr>
     u_briefTitle = Some (c_briefTitle input),
     u_detailedDescription = Some (c_detailedDescription input),
     u_category = Some (c_category input),
     u_tags = c_tags input,
     u_relatedArticles = c_relatedArticles input,
     u_status = c_status input,
     u_expirationDate = c_expirationDate input,
     u_id = None, u_authorId = None, u_authorName = None, u_createdAt = None,
     u_lockedBy = None, u_lockedByName = None, u_lockedAt = None, u_metadata = None \<rparr>"

text \<open>\<open>x || ''\<close> for an optional string.\<close>

definition orEmpty :: "string option \<Rightarrow> string" where
  "orEmpty x = (case x of None \<Rightarrow> [] | Some v \<Rightarrow> v)"

definition validateArticleInput ::
  "UpdateArticleInput \<Rightarrow> bool \<Rightarrow> (string \<times> string list) list" where
  "validateArticleInput input isCreate =
     (let title = orEmpty (u_briefTitle input);
          titleErrors =
            (if u_briefTitle input \<noteq> None \<or> isCreate then
               (if isCreate \<and> title = [] then [(''briefTitle'', [''Title is required''])]
                else if title \<noteq> [] then
                  (if length title < TITLE_MIN_LENGTH then
                     [(''briefTitle'', [''Title must be at least ''
                        @ numberToString TITLE_MIN_LENGTH @ '' characters''])]
                   else if length title > TITLE_MAX_LENGTH then
                     [(''briefTitle'', [''Title must not exceed ''
                        @ numberToString TITLE_MAX_LENGTH @ '' characters''])]
                   else [])
                else [])
             else []);
          desc = orEmpty (u_detailedDescription input);
          descErrors =
            (if u_detailedDescription input \<noteq> None \<or> isCreate then
               (if isCreate \<and> desc = [] then
                  [(''detailedDescription'', [''Description is required''])]
                else if desc \<noteq> [] then
                  (if length desc < DESCRIPTION_MIN_LENGTH then
                     [(''detailedDescription'', [''Description must be at least ''
                        @ numberToString DESCRIPTION_MIN_LENGTH @ '' characters''])]
                   else if length desc > DESCRIPTION_MAX_LENGTH then
                     [(''detailedDescription'', [''Description must not exceed ''
                        @ numberToString DESCRIPTION_MAX_LENGTH @ '' characters''])]
                   else [])
                else [])
             else []);
          cat = orEmpty (u_category input);
          catErrors =
            (if u_category input \<noteq> None \<or> isCreate then
               (if isCreate \<and> cat = [] then [(''category'', [''Category is required''])]
                else if cat \<noteq> [] \<and> length cat > CATEGORY_MAX_LENGTH then
                  [(''category'', [''Category must not exceed ''
                     @ numberToString CATEGORY_MAX_LENGTH @ '' characters''])]
                else [])
             else []);
          tagErrors =
            (case u_tags input of
               None \<Rightarrow> []
             | Some ts \<Rightarrow>
                 if length ts > MAX_TAGS then
                   [(''tags'', [''Maximum '' @ numberToString MAX_TAGS @ '' tags allowed''])]
                 else if length (filter (\<lambda>t. length t > TAG_MAX_LENGTH) ts) > 0 then
                   [(''tags'', [''Tags must not exceed ''
                      @ numberToString TAG_MAX_LENGTH @ '' characters''])]
                 else []);
          relatedErrors =
            (case u_relatedArticles input of
               None \<Rightarrow> []
             | Some rs \<Rightarrow>
                 if length rs > MAX_RELATED_ARTICLES then
                   [(''relatedArticles'', [''Maximum ''
                      @ numberToString MAX_RELATED_ARTICLES @ '' related articles allowed''])]
                 else [])
      in titleErrors @ descErrors @ catErrors @ tagErrors @ relatedErrors)"

definition ArticleService_create ::
  "State \<Rightarrow> nat \<Rightarrow> string \<Rightarrow> string \<Rightarrow> CreateArticleInput \<Rightarrow> User
     \<Rightarrow> (AppError + Article) \<times> State" where
  "ArticleService_create s now newId newVersionId input user =
     (if \<not> hasPermission user article_create then
        (Inl (ForbiddenError ''You do not have permission to create articles''), s)
      else
        let errors = validateArticleInput (asUpdateInput input) True in
        if errors \<noteq> [] then (Inl (ValidationError errors), s)
        else
          let (article, s1) =
                FileArticleRepository_create s now newId input (uid user) (displayName user);
              (v, s2) = createVersion s1 now newVersionId article (uid user) (displayName user)
                          (Some ''Initial creation'');
              s3 = updateArticleCount s2 (category article) 1
          in (Inr article, s3))"

definition getById :: "State \<Rightarrow> nat \<Rightarrow> string \<Rightarrow> User \<Rightarrow> (AppError + Article) \<times> State" where
  "getById s now articleId user =
     (case findById s articleId of
        None \<Rightarrow> (Inl (NotFoundError ''Article'' articleId), s)
      | Some article \<Rightarrow>
          let thrown =
                (if status article = deleted then
                   (if \<not> hasPermission user article_delete_all
                    then Some (NotFoundError ''Article'' articleId) else None)
                 else if status article = draft then
                   (if authorId article \<noteq> uid user
                       \<and> \<not> hasPermission user article_view_draft_all
                    then Some (ForbiddenError ''You do not have permission to view this draft'')
                    else None)
                 else None)
          in
          case thrown of
            Some e \<Rightarrow> (Inl e, s)
          | None \<Rightarrow>
              if status article = published then
                (case incrementViewCount s now articleId (Some (uid user)) of
                   Inl e \<Rightarrow> (Inl e, s)
                 | Inr (article', s1) \<Rightarrow> (Inr article', s1))
              else (Inr article, s))"

text \<open>\<open>x || y\<close> for an optional string \<open>x\<close>: an absent or empty \<open>x\<close> gives \<open>y\<close>.\<close>

definition orElse :: "string option \<Rightarrow> string \<Rightarrow> string" where
  "orElse x y = (case x of None \<Rightarrow> y | Some v \<Rightarrow> if v = [] then y else v)"

definition ArticleService_update ::
  "State \<Rightarrow> nat \<Rightarrow> string \<Rightarrow> string \<Rightarrow> UpdateArticleInput \<Rightarrow> User \<Rightarrow> string option
     \<Rightarrow> (AppError + Article) \<times> State" where
  "ArticleService_update s now newVersionId articleId input user reason =
     (case findById s articleId of
        None \<Rightarrow> (Inl (NotFoundError ''Article'' articleId), s)
      | Some article \<Rightarrow>
          let canEditOwn = (hasPermission user article_edit_own \<and> authorId article = uid user);
              canEditAll = hasPermission user article_edit_all
          in
          if \<not> canEditOwn \<and> \<not> canEditAll then
            (Inl (ForbiddenError ''You do not have permission to edit this article''), s)
          else
            let (lockStatus, s1) = getLockStatus s now articleId (uid user) in
            if isLocked lockStatus \<and> \<not> canEdit lockStatus then
              (Inl (ConflictError (''Article is currently being edited by ''
                 @ (case ls_lock lockStatus of None \<Rightarrow> ''undefined''
                    | Some lk \<Rightarrow> l_lockedByName lk))), s1)
            else
              let errors = validateArticleInput input False in
              if errors \<noteq> [] then (Inl (ValidationError errors), s1)
              else
                let oldCategory = category article;
                    newCategory = u_category input
                in
                (case FileArticleRepository_update s1 now articleId input of
                   Inl e \<Rightarrow> (Inl e, s1)
                 | Inr (updatedArticle, s2) \<Rightarrow>
                     let (v, s3) = createVersion s2 now newVersionId updatedArticle (uid user)
                                     (displayName user) reason;
                         s4 = (if orEmpty newCategory \<noteq> [] \<and> orEmpty newCategory \<noteq> oldCategory
                               then updateArticleCount
                                      (updateArticleCount s3 oldCategory (- 1))
                                      (orEmpty newCategory) 1
                               else s3)
                     in (Inr updatedArticle, s4)))"

definition ArticleService_delete ::
  "State \<Rightarrow> nat \<Rightarrow> string \<Rightarrow> string \<Rightarrow> User \<Rightarrow> (AppError + Article) \<times> State" where
  "ArticleService_delete s now newVersionId articleId user =
     (case findById s articleId of
        None \<Rightarrow> (Inl (NotFoundError ''Article'' articleId), s)
      | Some article \<Rightarrow>
          let canDeleteOwn =
                (hasPermission user article_delete_own \<and> authorId article = uid user);
              canDeleteAll = hasPermission user article_delete_all
          in
          if \<not> canDeleteOwn \<and> \<not> canDeleteAll then
            (Inl (ForbiddenError ''You do not have permission to delete this article''), s)
          else
            let (released, s1) = releaseLock s articleId (orElse (lockedBy article) (uid user)) in
            (case softDelete s1 now articleId of
               Inl e \<Rightarrow> (Inl e, s1)
             | Inr (deletedArticle, s2) \<Rightarrow>
                 let s3 = updateArticleCount s2 (category article) (- 1);
                     (v, s4) = createVersion s3 now newVersionId deletedArticle (uid user)
                                 (displayName user) (Some ''Moved to trash'')
                 in (Inr deletedArticle, s4)))"

definition permanentDelete :: "State \<Rightarrow> string \<Rightarrow> User \<Rightarrow> (AppError + unit) \<times> State" where
  "permanentDelete s articleId user =
     (if \<not> hasPermission user article_delete_all then
        (Inl (ForbiddenError ''You do not have permission to permanently delete articles''), s)
      else
        case findById s articleId of
          None \<Rightarrow> (Inl (NotFoundError ''Article'' articleId), s)
        | Some article \<Rightarrow>
            if status article \<noteq> deleted then
              (Inl (BadRequestError ''Article must be in trash before permanent deletion''), s)
            else
              let s1 = deleteVersions s articleId in
              (case hardDelete s1 articleId of
                 Inl e \<Rightarrow> (Inl e, s1)
               | Inr s2 \<Rightarrow> (Inr (), s2)))"

definition ArticleService_restore ::
  "State \<Rightarrow> nat \<Rightarrow> string \<Rightarrow> string \<Rightarrow> User \<Rightarrow> (AppError + Article) \<times> State" where
  "ArticleService_restore s now newVersionId articleId user =
     (case findById s articleId of
        None \<Rightarrow> (Inl (NotFoundError ''Article'' articleId), s)
      | Some article \<Rightarrow>
          if status article \<noteq> deleted then (Inl (BadRequestError ''Article is not in trash''), s)
          else
            let canRestoreOwn =
                  (hasPermission user article_restore_own \<and> authorId article = uid user);
                canRestoreAll = hasPermission user article_restore_all
            in
            if \<not> canRestoreOwn \<and> \<not> canRestoreAll then
              (Inl (ForbiddenError ''You do not have permission to restore this article''), s)
            else
              (case FileArticleRepository_restore s now articleId of
                 Inl e \<Rightarrow> (Inl e, s)
               | Inr (restoredArticle, s1) \<Rightarrow>
                   let s2 = updateArticleCount s1 (category restoredArticle) 1;
                       (v, s3) = createVersion s2 now newVersionId restoredArticle (uid user)
                                   (displayName user) (Some ''Restored from trash'')
                   in (Inr restoredArticle, s3)))"

definition publish ::
  "State \<Rightarrow> nat \<Rightarrow> string \<Rightarrow> string \<Rightarrow> User \<Rightarrow> (AppError + Article) \<times> State" where
  "publish s now newVersionId articleId user =
     (case findById s articleId of
        None \<Rightarrow> (Inl (NotFoundError ''Article'' articleId), s)
      | Some article \<Rightarrow>
          if status article \<noteq> draft then
            (Inl (BadRequestError ''Only draft articles can be published''), s)
          else
            let canPublishOwn =
                  (hasPermission user article_publish_own \<and> authorId article = uid user);
                canPublishAll = hasPermission user article_publish_all
            in
            if \<not> canPublishOwn \<and> \<not> canPublishAll then
              (Inl (ForbiddenError ''You do not have permission to publish this article''), s)
            else
              (case FileArticleRepository_update s now articleId
                      (noInput\<lparr>u_status := Some published\<rparr>) of
                 Inl e \<Rightarrow> (Inl e, s)
               | Inr (publishedArticle, s1) \<Rightarrow>
                   let (v, s2) = createVersion s1 now newVersionId publishedArticle (uid user)
                                   (displayName user) (Some ''Published'')
                   in (Inr publishedArticle, s2)))"

definition archive ::
  "State \<Rightarrow> nat \<Rightarrow> string \<Rightarrow> string \<Rightarrow> User \<Rightarrow> (AppError + Article) \<times> State" where
  "archive s now newVersionId articleId user =
     (if \<not> hasPermission user article_archive then
        (Inl (ForbiddenError ''You do not have permission to archive articles''), s)
      else
        case findById s articleId of
          None \<Rightarrow> (Inl (NotFoundError ''Article'' articleId), s)
        | Some article \<Rightarrow>
            if status article \<noteq> published then
              (Inl (BadRequestError ''Only published articles can be archived''), s)
            else
              (case FileArticleRepository_update s now articleId
                      (noInput\<lparr>u_status := Some archived\<rparr>) of
                 Inl e \<Rightarrow> (Inl e, s)
               | Inr (archivedArticle, s1) \<Rightarrow>
                   let (v, s2) = createVersion s1 now newVersionId archivedArticle (uid user)
                                   (displayName user) (Some ''Archived'')
                   in (Inr archivedArticle, s2)))"

subsection \<open>VersionService\<close>

definition restoreVersion ::
  "State \<Rightarrow> nat \<Rightarrow> string \<Rightarrow> string \<Rightarrow> nat \<Rightarrow> User \<Rightarrow> (AppError + ArticleVersion) \<times> State" where
  "restoreVersion s now newVersionId articleId versionNumber user =
     (case findById s articleId of
        None \<Rightarrow> (Inl (NotFoundError ''Article'' articleId), s)
      | Some article \<Rightarrow>
          let canRestoreOwn =
                (hasPermission user article_version_restore_own \<and> authorId article = uid user);
              canRestoreAll = hasPermission user article_version_restore_all
          in
          if \<not> canRestoreOwn \<and> \<not> canRestoreAll then
            (Inl (ForbiddenError ''You do not have permission to restore versions''), s)
          else
            case getVersion s articleId versionNumber of
              None \<Rightarrow>
                (Inl (NotFoundError ''Version''
                        (articleId @ ''/v'' @ numberToString versionNumber)), s)
            | Some versionToRestore \<Rightarrow>
                if versionNumber = version article then
                  (Inl (BadRequestError ''Cannot restore to current version''), s)
                else
                  (case FileArticleRepository_update s now articleId \<lparr>
                          u_briefTitle = Some (v_briefTitle versionToRestore),
                          u_detailedDescription = Some (v_detailedDescription versionToRestore),
                          u_category = Some (v_category versionToRestore),
                          u_tags = Some (v_tags versionToRestore),
                          u_relatedArticles = Some (v_relatedArticles versionToRestore),
                          u_status = None,
                          u_expirationDate = None,
                          u_id = None, u_authorId = None, u_authorName = None,
                          u_createdAt = None, u_lockedBy = None, u_lockedByName = None,
                          u_lockedAt = None, u_metadata = None \<rparr> of
                     Inl e \<Rightarrow> (Inl e, s)
                   | Inr (restoredArticle, s1) \<Rightarrow>
                       let (newVersion, s2) =
                             createVersion s1 now newVersionId restoredArticle (uid user)
                               (displayName user)
                               (Some (''Restored from version '' @ numberToString versionNumber))
                       in (Inr newVersion, s2)))"

subsection \<open>LockService\<close>

text \<open>\<open>updateArticleLockInfo\<close> and \<open>clearArticleLockInfo\<close> assign to the cached article
  object, which no later save is needed to make visible to \<open>findById\<close>.\<close>

definition updateArticleLockInfo :: "State \<Rightarrow> nat \<Rightarrow> string \<Rightarrow> string \<Rightarrow> string \<Rightarrow> State" where
  "updateArticleLockInfo s now articleId userId userName =
     (case findById s articleId of
        None \<Rightarrow> s
      | Some article \<Rightarrow>
          s\<lparr>articles := (articles s)(articleId \<mapsto>
               article\<lparr>lockedBy := Some userId, lockedByName := Some userName,
                       lockedAt := Some now\<rparr>)\<rparr>)"

definition clearArticleLockInfo :: "State \<Rightarrow> string \<Rightarrow> State" where
  "clearArticleLockInfo s articleId =
     (case findById s articleId of
        None \<Rightarrow> s
      | Some article \<Rightarrow>
          s\<lparr>articles := (articles s)(articleId \<mapsto>
               article\<lparr>lockedBy := None, lockedByName := None, lockedAt := None\<rparr>)\<rparr>)"

definition LockService_acquireLock ::
  "State \<Rightarrow> nat \<Rightarrow> nat \<Rightarrow> string \<Rightarrow> User \<Rightarrow> (AppError + LockAcquisitionResult) \<times> State" where
  "LockService_acquireLock s timeoutMs now articleId user =
     (case findById s articleId of
        None \<Rightarrow> (Inl (NotFoundError ''Article'' articleId), s)
      | Some article \<Rightarrow>
          let canEditOwn = (hasPermission user article_edit_own \<and> authorId article = uid user);
              canEditAll = hasPermission user article_edit_all
          in
          if \<not> canEditOwn \<and> \<not> canEditAll then
            (Inl (ForbiddenError ''You do not have permission to edit this article''), s)
          else
            let (result, s1) =
                  acquireLock s timeoutMs now articleId (uid user) (displayName user);
                s2 = (if success result
                      then updateArticleLockInfo s1 now articleId (uid user) (displayName user)
                      else s1)
            in (Inr result, s2))"

definition LockService_releaseLock ::
  "State \<Rightarrow> nat \<Rightarrow> string \<Rightarrow> User \<Rightarrow> (AppError + bool) \<times> State" where
  "LockService_releaseLock s now articleId user =
     (if \<not> exists s articleId then (Inl (NotFoundError ''Article'' articleId), s)
      else
        let (lockStatus, s1) = getLockStatus s now articleId (uid user) in
        if isLocked lockStatus \<and> \<not> canEdit lockStatus
           \<and> \<not> hasPermission user article_edit_all then
          (Inl (ForbiddenError ''You cannot release a lock held by another user''), s1)
        else
          let (released, s2) =
                releaseLock s1 articleId
                  (orElse (map_option l_lockedBy (ls_lock lockStatus)) (uid user));
              s3 = (if released then clearArticleLockInfo s2 articleId else s2)
          in (Inr released, s3))"

definition renewLock ::
  "State \<Rightarrow> nat \<Rightarrow> nat \<Rightarrow> string \<Rightarrow> User \<Rightarrow> (AppError + LockAcquisitionResult) \<times> State" where
  "renewLock s timeoutMs now articleId user =
     (let (lockStatus, s1) = getLockStatus s now articleId (uid user) in
      if \<not> isLocked lockStatus \<or> \<not> canEdit lockStatus then
        LockService_acquireLock s1 timeoutMs now articleId user
      else
        let (result, s2) =
              acquireLock s1 timeoutMs now articleId (uid user) (displayName user);
            s3 = (if success result
                  then updateArticleLockInfo s2 now articleId (uid user) (displayName user)
                  else s2)
        in (Inr result, s3))"

subsection \<open>CommentService\<close>

definition CONTENT_MIN_LENGTH :: nat where "CONTENT_MIN_LENGTH = 1"
definition CONTENT_MAX_LENGTH :: nat where "CONTENT_MAX_LENGTH = 2000"

text \<open>
  \<open>String.prototype.trim\<close> strips white space and line terminators. A \<open>char\<close> stands
  for a UTF-16 code unit below 256; of those, the stripped ones are tab, line feed,
  vertical tab, form feed, carriage return, space and the no-break space U+00A0.
\<close>

definition isWhiteSpace :: "char \<Rightarrow> bool" where
  "isWhiteSpace c =
     (c \<in> set [CHR 0x09, CHR 0x0A, CHR 0x0B, CHR 0x0C, CHR 0x0D, CHR 0x20, CHR 0xA0])"

definition trim :: "string \<Rightarrow> string" where
  "trim x = rev (dropWhile isWhiteSpace (rev (dropWhile isWhiteSpace x)))"

definition validateCommentInput :: "string \<Rightarrow> (string \<times> string list) list" where
  "validateCommentInput content =
     (if content = [] \<or> length (trim content) = 0 then
        [(''content'', [''Comment content is required''])]
      else if length content < CONTENT_MIN_LENGTH then
        [(''content'', [''Comment must be at least ''
           @ numberToString CONTENT_MIN_LENGTH @ '' character''])]
      else if length content > CONTENT_MAX_LENGTH then
        [(''content'', [''Comment must not exceed ''
           @ numberToString CONTENT_MAX_LENGTH @ '' characters''])]
      else [])"

definition CommentService_create ::
  "State \<Rightarrow> nat \<Rightarrow> string \<Rightarrow> string \<Rightarrow> string \<Rightarrow> User \<Rightarrow> (AppError + Comment) \<times> State" where
  "CommentService_create s now newId articleId content user =
     (if \<not> hasPermission user comment_create then
        (Inl (ForbiddenError ''You do not have permission to add comments''), s)
      else
        case findById s articleId of
          None \<Rightarrow> (Inl (NotFoundError ''Article'' articleId), s)
        | Some article \<Rightarrow>
            if status article \<noteq> published then
              (Inl (ForbiddenError ''Comments can only be added to published articles''), s)
            else
              let errors = validateCommentInput content in
              if errors \<noteq> [] then (Inl (ValidationError errors), s)
              else
                let (comment, s1) =
                      FileCommentRepository_create s now newId articleId (trim content)
                        (uid user) (displayName user)
                in (Inr comment, s1))"

section \<open>The create endpoint: route, body validation, controller\<close>

text \<open>
  \<open>POST /api/articles\<close> is \<open>requireRole('author')\<close>, then \<open>validateBody\<close> with the
  schema of \<open>articleController.create\<close>, then \<open>articleService.create\<close>. The body is a
  JSON object whose present fields have the JSON type the schema names (a string, an
  array of strings); the \<open>must be a string\<close> and \<open>must be an array\<close> failures of
  \<open>validateObject\<close> are not part of the model.
\<close>

fun roleLevel :: "UserRole \<Rightarrow> nat" where
  "roleLevel reader = 0"
| "roleLevel actor = 1"
| "roleLevel author = 2"
| "roleLevel editor = 3"

definition requireRole :: "UserRole \<Rightarrow> User \<Rightarrow> AppError option" where
  "requireRole minimumRole user =
     (if roleLevel (role user) < roleLevel minimumRole then
        Some (UnauthorizedError (''This action requires ''
          @ (case minimumRole of reader \<Rightarrow> ''reader'' | actor \<Rightarrow> ''actor''
             | author \<Rightarrow> ''author'' | editor \<Rightarrow> ''editor'') @ '' role or higher''))
      else None)"

record StringRule =
  isRequired :: bool
  minLength :: "nat option"
  maxLength :: "nat option"
  enumValues :: "string list option"

definition validateString ::
  "string \<Rightarrow> StringRule \<Rightarrow> string option \<Rightarrow> (string \<times> string list) list" where
  "validateString fieldPath rules v =
     (if isRequired rules \<and> (v = None \<or> v = Some []) then
        [(fieldPath, [fieldPath @ '' is required''])]
      else
        case v of
          None \<Rightarrow> []
        | Some x \<Rightarrow>
            let fieldErrors =
                  (case minLength rules of
                     None \<Rightarrow> []
                   | Some m \<Rightarrow>
                       if m \<noteq> 0 \<and> length x < m then
                         [fieldPath @ '' must be at least '' @ numberToString m @ '' characters'']
                       else [])
                  @ (case maxLength rules of
                       None \<Rightarrow> []
                     | Some m \<Rightarrow>
                         if m \<noteq> 0 \<and> length x > m then
                           [fieldPath @ '' must not exceed '' @ numberToString m @ '' characters'']
                         else [])
                  @ (case enumValues rules of
                       None \<Rightarrow> []
                     | Some vs \<Rightarrow>
                         if x \<notin> set vs then
                           [fieldPath @ '' must be one of: '' @ joinWith '', '' vs]
                         else [])
            in if length fieldErrors > 0 then [(fieldPath, fieldErrors)] else [])"

record CreateArticleBody =
  b_briefTitle :: "string option"
  b_detailedDescription :: "string option"
  b_category :: "string option"
  b_tags :: "string list option"
  b_relatedArticles :: "string list option"
  b_status :: "string option"
  b_expirationDate :: "string option"
  b_contentFormat :: "string option"

definition optionalRule :: StringRule where
  "optionalRule = \<lparr> isRequired = False, minLength = None, maxLength = None,
     enumValues = None \<rparr>"

definition validateCreateBody :: "CreateArticleBody \<Rightarrow> (string \<times> string list) list" where
  "validateCreateBody body =
     validateString ''briefTitle''
       (optionalRule\<lparr>isRequired := True, minLength := Some TITLE_MIN_LENGTH,
          maxLength := Some TITLE_MAX_LENGTH\<rparr>) (b_briefTitle body)
     @ validateString ''detailedDescription''
       (optionalRule\<lparr>isRequired := True, minLength := Some DESCRIPTION_MIN_LENGTH,
          maxLength := Some DESCRIPTION_MAX_LENGTH\<rparr>) (b_detailedDescription body)
     @ validateString ''category''
       (optionalRule\<lparr>isRequired := True, maxLength := Some CATEGORY_MAX_LENGTH\<rparr>)
       (b_category body)
     @ validateString ''status''
       (optionalRule\<lparr>enumValues := Some [''draft'', ''published'']\<rparr>) (b_status body)
     @ validateString ''expirationDate'' optionalRule (b_expirationDate body)
     @ validateString ''contentFormat''
       (optionalRule\<lparr>enumValues := Some [''markdown'', ''richtext'']\<rparr>) (b_contentFormat body)"

text \<open>The cast \<open>const input: CreateArticleInput = req.body\<close>: the strings of the body
  are the values of the union types.\<close>

definition statusOfString :: "string \<Rightarrow> ArticleStatus option" where
  "statusOfString x =
     (if x = ''draft'' then Some draft else if x = ''published'' then Some published
      else if x = ''archived'' then Some archived else if x = ''deleted'' then Some deleted
      else None)"

definition formatOfString :: "string \<Rightarrow> ContentFormat option" where
  "formatOfString x =
     (if x = ''markdown'' then Some markdown else if x = ''richtext'' then Some richtext
      else None)"

definition bodyAsInput :: "CreateArticleBody \<Rightarrow> CreateArticleInput" where
  "bodyAsInput body = \<lparr>
     c_briefTitle = orEmpty (b_briefTitle body),
     c_detailedDescription = orEmpty (b_detailedDescription body),
     c_category = orEmpty (b_category body),
     c_tags = b_tags body,
     c_relatedArticles = b_relatedArticles body,
     c_status = Option.bind (b_status body) statusOfString,
     c_expirationDate = b_expirationDate body,
     c_contentFormat = Option.bind (b_contentFormat body) formatOfString \<rparr>"

definition articleController_create ::
  "State \<Rightarrow> nat \<Rightarrow> string \<Rightarrow> string \<Rightarrow> CreateArticleBody \<Rightarrow> User
     \<Rightarrow> (AppError + Article) \<times> State" where
  "articleController_create s now newId newVersionId body user =
     (let errors = validateCreateBody body in
      if errors \<noteq> [] then (Inl (ValidationError errors), s)
      else ArticleService_create s now newId newVersionId (bodyAsInput body) user)"

definition POST_articles ::
  "State \<Rightarrow> nat \<Rightarrow> string \<Rightarrow> string \<Rightarrow> CreateArticleBody \<Rightarrow> User
     \<Rightarrow> (AppError + Article) \<times> State" where
  "POST_articles s now newId newVersionId body user =
     (case requireRole author user of
        Some e \<Rightarrow> (Inl e, s)
      | None \<Rightarrow> articleController_create s now newId newVersionId body user)"

section \<open>Observations and example states\<close>

text \<open>The article count stored for a category name, as \<open>updateArticleCount\<close> finds it.\<close>

definition storedCount :: "State \<Rightarrow> string \<Rightarrow> int option" where
  "storedCount s categoryName = map_option articleCount (findCategory (categories s) categoryName)"

definition alice :: User where
  "alice = \<lparr> uid = ''u-alice'', email = ''alice@example.org'', displayName = ''Alice'',
     role = author \<rparr>"

definition bob :: User where
  "bob = \<lparr> uid = ''u-bob'', email = ''bob@example.org'', displayName = ''Bob'',
     role = author \<rparr>"

definition rita :: User where
  "rita = \<lparr> uid = ''u-rita'', email = ''rita@example.org'', displayName = ''Rita'',
     role = reader \<rparr>"

definition carl :: User where
  "carl = \<lparr> uid = ''u-carl'', email = ''carl@example.org'', displayName = ''Carl'',
     role = actor \<rparr>"

definition erin :: User where
  "erin = \<lparr> uid = ''u-erin'', email = ''erin@example.org'', displayName = ''Erin'',
     role = editor \<rparr>"

definition emptyState :: State where
  "emptyState = \<lparr> articles = Map.empty, versionFiles = (\<lambda>i. Map.empty),
     lockFiles = Map.empty, categories = [], commentFiles = (\<lambda>i. []) \<rparr>"

definition securityCategory :: "int \<Rightarrow> Category" where
  "securityCategory n = \<lparr> cat_id = ''c-sec'', cat_name = ''Security'',
     cat_description = None, cat_order = 6, articleCount = n \<rparr>"

text \<open>Alice's article \<open>a1\<close> at version 1, in a given status, and its first snapshot.\<close>

definition articleA1 :: "ArticleStatus \<Rightarrow> Article" where
  "articleA1 st = \<lparr> aid = ''a1'', briefTitle = ''Reset a password'',
     detailedDescription = ''Open the portal and choose reset.'', category = ''Security'',
     tags = [''password''], relatedArticles = [], status = st, authorId = ''u-alice'',
     authorName = ''Alice'', createdAt = 1000, updatedAt = 1000,
     publishedAt = (if st = published then Some 1000 else None), expirationDate = None,
     version = 1, lockedBy = None, lockedByName = None, lockedAt = None,
     metadata = \<lparr> viewCount = 0, contentFormat = richtext, lastViewedAt = None,
       lastViewedBy = None \<rparr> \<rparr>"

definition snapshotA1 :: "ArticleStatus \<Rightarrow> ArticleVersion" where
  "snapshotA1 st = createVersionFromArticle (articleA1 st) ''u-alice'' ''Alice''
     (Some ''Initial creation'') 1000 ''v-1''"

definition stateA1 :: "ArticleStatus \<Rightarrow> int \<Rightarrow> State" where
  "stateA1 st n = \<lparr> articles = [''a1'' \<mapsto> articleA1 st],
     versionFiles = (\<lambda>i. Map.empty)(''a1'' := [1 \<mapsto> snapshotA1 st]),
     lockFiles = Map.empty, categories = [securityCategory n],
     commentFiles = (\<lambda>i. []) \<rparr>"

definition aliceLock :: "nat \<Rightarrow> ArticleLock" where
  "aliceLock t = \<lparr> l_articleId = ''a1'', l_lockedBy = ''u-alice'', l_lockedByName = ''Alice'',
     l_lockedAt = t, expiresAt = t + 1800000 \<rparr>"

definition stateA1Locked :: "ArticleStatus \<Rightarrow> nat \<Rightarrow> State" where
  "stateA1Locked st t = (stateA1 st 1)\<lparr>
     articles := [''a1'' \<mapsto> (articleA1 st)\<lparr>lockedBy := Some ''u-alice'',
                   lockedByName := Some ''Alice'', lockedAt := Some t\<rparr>],
     lockFiles := [''a1'' \<mapsto> aliceLock t] \<rparr>"

text \<open>The HTTP status of a thrown error.\<close>

definition errorStatus :: "AppError + 'a \<Rightarrow> nat option" where
  "errorStatus r = (case r of Inl e \<Rightarrow> Some (statusCode e) | Inr x \<Rightarrow> None)"

definition publishedBody :: CreateArticleBody where
  "publishedBody = \<lparr> b_briefTitle = Some ''Reset a password'',
     b_detailedDescription = Some ''Open the portal and choose reset.'',
     b_category = Some ''Security'', b_tags = Some [''password''], b_relatedArticles = None,
     b_status = Some ''published'', b_expirationDate = None, b_contentFormat = None \<rparr>"

text \<open>The article \<open>a1\<close> after one update of its title: version 2, two snapshots.\<close>

definition articleA1v2 :: Article where
  "articleA1v2 = (articleA1 draft)\<lparr>briefTitle := ''Reset your password'', version := 2,
     updatedAt := 1500\<rparr>"

definition stateA1v2 :: State where
  "stateA1v2 = \<lparr> articles = [''a1'' \<mapsto> articleA1v2],
     versionFiles = (\<lambda>i. Map.empty)(''a1'' :=
       [1 \<mapsto> snapshotA1 draft,
        2 \<mapsto> createVersionFromArticle articleA1v2 ''u-alice'' ''Alice'' None 1500 ''v-2'']),
     lockFiles = Map.empty, categories = [securityCategory 1],
     commentFiles = (\<lambda>i. []) \<rparr>"

text \<open>The status of the article a service call returns, if it returns one.\<close>

definition resultStatus :: "AppError + Article \<Rightarrow> ArticleStatus option" where
  "resultStatus r = (case r of Inl e \<Rightarrow> None | Inr a \<Rightarrow> Some (status a))"

text \<open>Outcomes of a service call: rejected with the forbidden error; returned a result.\<close>

definition forbidden :: "(AppError + 'a) \<times> State \<Rightarrow> bool" where
  "forbidden r = (case fst r of Inl (ForbiddenError m) \<Rightarrow> True | _ \<Rightarrow> False)"

definition succeeded :: "(AppError + 'a) \<times> State \<Rightarrow> bool" where
  "succeeded r = (case fst r of Inl e \<Rightarrow> False | Inr x \<Rightarrow> True)"

definition titleInput :: UpdateArticleInput where
  "titleInput = noInput\<lparr>u_briefTitle := Some ''Reset your password''\<rparr>"

definition exampleInput :: CreateArticleInput where
  "exampleInput = \<lparr> c_briefTitle = ''Reset a password'',
     c_detailedDescription = ''Open the portal and choose reset.'',
     c_category = ''Security'', c_tags = Some [''password''], c_relatedArticles = None,
     c_status = None, c_expirationDate = None, c_contentFormat = None \<rparr>"

subsection \<open>The version counter and the version records\<close>

text \<open>
  The six calls that change an article already stored, by name; \<open>mutate\<close> makes the
  named call and gives whether it returned a result, with the state it left.
\<close>

datatype Mutation =
    Update UpdateArticleInput "string option"
  | Publish
  | Archive
  | SoftDelete
  | RestoreFromTrash
  | RestoreToVersion nat

definition mutate ::
  "State \<Rightarrow> nat \<Rightarrow> string \<Rightarrow> string \<Rightarrow> User \<Rightarrow> Mutation \<Rightarrow> bool \<times> State" where
  "mutate s now newVersionId articleId user m =
     (case m of
        Update input reason \<Rightarrow>
          (let r = ArticleService_update s now newVersionId articleId input user reason
           in (succeeded r, snd r))
      | Publish \<Rightarrow>
          (let r = publish s now newVersionId articleId user in (succeeded r, snd r))
      | Archive \<Rightarrow>
          (let r = archive s now newVersionId articleId user in (succeeded r, snd r))
      | SoftDelete \<Rightarrow>
          (let r = ArticleService_delete s now newVersionId articleId user
           in (succeeded r, snd r))
      | RestoreFromTrash \<Rightarrow>
          (let r = ArticleService_restore s now newVersionId articleId user
           in (succeeded r, snd r))
      | RestoreToVersion n \<Rightarrow>
          (let r = restoreVersion s now newVersionId articleId n user
           in (succeeded r, snd r)))"

text \<open>
  The invariant: every stored article is stored under its own id and the version files
  of its directory are exactly those numbered 1 to its \<open>version\<close>; an id with no
  article has no version file.
\<close>

definition versionsConsistent :: "State \<Rightarrow> bool" where
  "versionsConsistent s =
     (\<forall>i. case articles s i of
            None \<Rightarrow> versionFiles s i = Map.empty
          | Some a \<Rightarrow> aid a = i \<and> dom (versionFiles s i) = {1..version a})"

text \<open>One step of the version protocol on the article \<open>a\<close>: \<open>a'\<close> replaces it with the
  next version number and the snapshot \<open>v\<close> is written under that number.\<close>

definition snapshotAdded :: "State \<Rightarrow> State \<Rightarrow> Article \<Rightarrow> Article \<Rightarrow> ArticleVersion \<Rightarrow> bool" where
  "snapshotAdded s s' a a' v =
     (aid a' = aid a \<and> version a' = version a + 1 \<and> v_version v = version a + 1
      \<and> articles s' = (articles s)(aid a \<mapsto> a')
      \<and> versionFiles s' =
          (versionFiles s)(aid a := (versionFiles s (aid a))(version a + 1 \<mapsto> v)))"

text \<open>The state after Alice creates \<open>a1\<close> in the empty state: no category is stored.\<close>

definition createdState :: State where
  "createdState = (stateA1 draft 0)\<lparr>categories := []\<rparr>"

text \<open>
  An update whose input has no key \<open>id\<close> stores the article under the id it had; the
  other five calls build their input themselves, without that key.
\<close>

definition keepsId :: "Mutation \<Rightarrow> bool" where
  "keepsId m = (case m of Update input reason \<Rightarrow> u_id input = None | _ \<Rightarrow> True)"

text \<open>The request bodies \<open>{"id": j}\<close> and \<open>{"id": j, "briefTitle": t}\<close> of
  \<open>PUT /api/articles/:id\<close>, as the controller hands them to \<open>ArticleService.update\<close>.\<close>

definition idInput :: "string \<Rightarrow> UpdateArticleInput" where
  "idInput j = noInput\<lparr>u_id := Some j\<rparr>"

definition idTitleInput :: "string \<Rightarrow> string \<Rightarrow> UpdateArticleInput" where
  "idTitleInput j t = noInput\<lparr>u_id := Some j, u_briefTitle := Some t\<rparr>"

text \<open>Bob's article \<open>b1\<close> at version 1, its first snapshot, and a state that holds it
  beside Alice's draft \<open>a1\<close>.\<close>

definition articleB1 :: Article where
  "articleB1 = \<lparr> aid = ''b1'', briefTitle = ''Rotate the signing keys'',
     detailedDescription = ''Generate a new pair, publish it, retire the old one.'',
     category = ''Security'', tags = [''keys''], relatedArticles = [], status = published,
     authorId = ''u-bob'', authorName = ''Bob'', createdAt = 1200, updatedAt = 1200,
     publishedAt = Some 1200, expirationDate = None, version = 1, lockedBy = None,
     lockedByName = None, lockedAt = None,
     metadata = \<lparr> viewCount = 0, contentFormat = richtext, lastViewedAt = None,
       lastViewedBy = None \<rparr> \<rparr>"

definition snapshotB1 :: ArticleVersion where
  "snapshotB1 = createVersionFromArticle articleB1 ''u-bob'' ''Bob''
     (Some ''Initial creation'') 1200 ''v-b1''"

definition stateA1B1 :: State where
  "stateA1B1 = \<lparr> articles = [''a1'' \<mapsto> articleA1 draft, ''b1'' \<mapsto> articleB1],
     versionFiles = (\<lambda>i. Map.empty)(''a1'' := [1 \<mapsto> snapshotA1 draft],
                                       ''b1'' := [1 \<mapsto> snapshotB1]),
     lockFiles = Map.empty, categories = [securityCategory 2],
     commentFiles = (\<lambda>i. []) \<rparr>"

section \<open>Verified properties\<close>

subsection \<open>Category counts\<close>

lemma findCategory_assignFirst:
  "findCategory cats name = Some c \<Longrightarrow>
   findCategory (assignFirst cats name n) name = Some (c\<lparr>articleCount := n\<rparr>)"
  by (induction cats) (auto simp: findCategory_def)

lemma findCategory_assignFirst_other:
  "name' \<noteq> name \<Longrightarrow> findCategory (assignFirst cats name n) name' = findCategory cats name'"
  by (induction cats) (auto simp: findCategory_def)

lemma storedCount_updateArticleCount:
  "storedCount (updateArticleCount s name delta) name =
     map_option (\<lambda>n. max 0 (n + delta)) (storedCount s name)"
  by (auto simp: storedCount_def updateArticleCount_def findCategory_assignFirst
      split: option.splits)

lemma storedCount_updateArticleCount_other:
  "name' \<noteq> name \<Longrightarrow> storedCount (updateArticleCount s name delta) name' = storedCount s name'"
  by (auto simp: storedCount_def updateArticleCount_def findCategory_assignFirst_other
      split: option.splits)

text \<open>
  Claim C9. \<open>updateArticleCount\<close> never stores a negative count: the count of the named
  category becomes \<open>max 0 (current + delta)\<close>, so a decrement of a zero count leaves
  zero and nothing is reported; when no category has the name, the state is returned
  as it was (the call has no error result); no other category's count changes.
\<close>

theorem updateArticleCount_never_negative:
  "(storedCount s categoryName = None \<longrightarrow> updateArticleCount s categoryName delta = s)
   \<and> (\<forall>n. storedCount s categoryName = Some n \<longrightarrow>
          storedCount (updateArticleCount s categoryName delta) categoryName
            = Some (max 0 (n + delta)))
   \<and> (\<forall>n. storedCount (updateArticleCount s categoryName delta) categoryName = Some n
          \<longrightarrow> 0 \<le> n)
   \<and> (storedCount s categoryName = Some 0 \<and> delta < 0 \<longrightarrow>
          storedCount (updateArticleCount s categoryName delta) categoryName = Some 0)
   \<and> (\<forall>other. other \<noteq> categoryName \<longrightarrow>
          storedCount (updateArticleCount s categoryName delta) other = storedCount s other)"
  apply (intro conjI allI impI)
      apply (simp add: storedCount_def updateArticleCount_def split: option.splits)
     apply (simp add: storedCount_updateArticleCount)
    apply (auto simp add: storedCount_updateArticleCount)[1]
   apply (simp add: storedCount_updateArticleCount)
  apply (simp add: storedCount_updateArticleCount_other)
  done

theorem updateArticleCount_never_negative_witness:
  "storedCount (stateA1 draft 0) ''Security'' = Some 0
   \<and> storedCount (updateArticleCount (stateA1 draft 0) ''Security'' (- 1)) ''Security'' = Some 0
   \<and> storedCount (updateArticleCount (stateA1 draft 3) ''Security'' (- 1)) ''Security'' = Some 2
   \<and> storedCount (stateA1 draft 3) ''Network'' = None
   \<and> updateArticleCount (stateA1 draft 3) ''Network'' 1 = stateA1 draft 3"
  using updateArticleCount_never_negative [of "stateA1 draft 0" "''Security''" "- 1"]
    updateArticleCount_never_negative [of "stateA1 draft 3" "''Security''" "- 1"]
    updateArticleCount_never_negative [of "stateA1 draft 3" "''Network''" 1]
  by (simp add: storedCount_def stateA1_def securityCategory_def findCategory_def)

subsection \<open>Printing numbers\<close>

lemma numberToString_digit: "n < 10 \<Longrightarrow> numberToString n = [digitChar n]"
  by (simp add: numberToString.simps[of n])

lemma numberToString_more:
  "10 \<le> n \<Longrightarrow> numberToString n = numberToString (n div 10) @ [digitChar (n mod 10)]"
  by (simp add: numberToString.simps[of n])

subsection \<open>The lock store\<close>

text \<open>
  Claim C3. \<open>acquireLock\<close> of the lock repository, at time \<open>now\<close>: with no lock record,
  or a stored lock whose \<open>expiresAt\<close> has passed, it stores a lock owned by the caller
  that expires at \<open>now + timeoutMs\<close> and returns success; with a live lock of the same
  owner it returns success and stores a lock with the renewed expiry; with a live lock of
  another owner it returns failure, with the stored lock and a message carrying the
  holder's display name, and leaves the state as it was.
\<close>

theorem acquireLock_cases:
  "(lockFiles s articleId = None \<or> (\<exists>lk. lockFiles s articleId = Some lk \<and> expiresAt lk < now) \<longrightarrow>
      acquireLock s timeoutMs now articleId userId userName =
        (\<lparr> success = True,
            la_lock = Some (createLock timeoutMs now articleId userId userName),
            la_message = ''Lock acquired successfully'' \<rparr>,
         s\<lparr>lockFiles := (lockFiles s)(articleId \<mapsto>
              createLock timeoutMs now articleId userId userName)\<rparr>))
   \<and> (\<forall>lk. lockFiles s articleId = Some lk \<and> \<not> expiresAt lk < now \<and> l_lockedBy lk = userId \<longrightarrow>
      acquireLock s timeoutMs now articleId userId userName =
        (\<lparr> success = True,
            la_lock = Some (createLock timeoutMs now articleId userId userName),
            la_message = ''Lock renewed successfully'' \<rparr>,
         s\<lparr>lockFiles := (lockFiles s)(articleId \<mapsto>
              createLock timeoutMs now articleId userId userName)\<rparr>))
   \<and> (\<forall>lk. lockFiles s articleId = Some lk \<and> \<not> expiresAt lk < now \<and> l_lockedBy lk \<noteq> userId \<longrightarrow>
      acquireLock s timeoutMs now articleId userId userName =
        (\<lparr> success = False, la_lock = Some lk,
            la_message = ''Article is currently being edited by '' @ l_lockedByName lk \<rparr>, s))
   \<and> createLock timeoutMs now articleId userId userName =
        \<lparr> l_articleId = articleId, l_lockedBy = userId, l_lockedByName = userName,
          l_lockedAt = now, expiresAt = now + timeoutMs \<rparr>"
  by (auto simp: acquireLock_def loadLock_def isExpired_def saveLock_def createLock_def Let_def)

theorem acquireLock_cases_witness:
  "fst (acquireLock emptyState 1800000 1000 ''a1'' ''u-alice'' ''Alice'')
     = \<lparr> success = True, la_lock = Some (aliceLock 1000),
         la_message = ''Lock acquired successfully'' \<rparr>
   \<and> lockFiles (snd (acquireLock emptyState 1800000 1000 ''a1'' ''u-alice'' ''Alice'')) ''a1''
     = Some (aliceLock 1000)
   \<and> acquireLock (stateA1Locked draft 1000) 1800000 2000 ''a1'' ''u-bob'' ''Bob''
     = (\<lparr> success = False, la_lock = Some (aliceLock 1000),
          la_message = ''Article is currently being edited by Alice'' \<rparr>,
        stateA1Locked draft 1000)
   \<and> fst (acquireLock (stateA1Locked draft 1000) 1800000 2000 ''a1'' ''u-alice'' ''Alice'')
     = \<lparr> success = True, la_lock = Some (aliceLock 2000),
         la_message = ''Lock renewed successfully'' \<rparr>
   \<and> lockFiles (snd (acquireLock (stateA1Locked draft 1000) 1800000 1801001 ''a1'' ''u-bob'' ''Bob''))
        ''a1''
     = Some \<lparr> l_articleId = ''a1'', l_lockedBy = ''u-bob'', l_lockedByName = ''Bob'',
              l_lockedAt = 1801001, expiresAt = 3601001 \<rparr>"
  using acquireLock_cases [of emptyState "''a1''" 1000 1800000 "''u-alice''" "''Alice''"]
    acquireLock_cases [of "stateA1Locked draft 1000" "''a1''" 2000 1800000 "''u-bob''" "''Bob''"]
    acquireLock_cases [of "stateA1Locked draft 1000" "''a1''" 2000 1800000 "''u-alice''" "''Alice''"]
    acquireLock_cases [of "stateA1Locked draft 1000" "''a1''" 1801001 1800000 "''u-bob''" "''Bob''"]
  by (simp add: emptyState_def stateA1Locked_def stateA1_def aliceLock_def)

subsection \<open>Reading an article\<close>

text \<open>
  Claim C1, as the code has it. A draft fetched by a principal who is neither its author
  nor allowed to view all drafts is rejected with the forbidden error (HTTP 403) and the
  state is unchanged; a nonexistent id is reported as not found (HTTP 404). The two
  errors differ.
\<close>

theorem getById_hidden_draft_forbidden:
  "(\<forall>article. findById s articleId = Some article \<and> status article = draft
       \<and> authorId article \<noteq> uid user \<and> \<not> hasPermission user article_view_draft_all \<longrightarrow>
       getById s now articleId user
         = (Inl (ForbiddenError ''You do not have permission to view this draft''), s)
       \<and> errorStatus (fst (getById s now articleId user)) = Some 403)
   \<and> (findById s articleId = None \<longrightarrow>
       getById s now articleId user = (Inl (NotFoundError ''Article'' articleId), s)
       \<and> errorStatus (fst (getById s now articleId user)) = Some 404)"
  by (auto simp: getById_def errorStatus_def)

theorem getById_hidden_draft_forbidden_witness:
  "findById (stateA1 draft 1) ''a1'' = Some (articleA1 draft)
   \<and> status (articleA1 draft) = draft
   \<and> authorId (articleA1 draft) \<noteq> uid carl
   \<and> \<not> hasPermission carl article_view_draft_all
   \<and> getById (stateA1 draft 1) 2000 ''a1'' carl
        = (Inl (ForbiddenError ''You do not have permission to view this draft''),
           stateA1 draft 1)
   \<and> findById (stateA1 draft 1) ''a2'' = None
   \<and> errorStatus (fst (getById (stateA1 draft 1) 2000 ''a2'' carl)) = Some 404"
  using getById_hidden_draft_forbidden [of "stateA1 draft 1" "''a1''" carl 2000]
    getById_hidden_draft_forbidden [of "stateA1 draft 1" "''a2''" carl 2000]
  by (simp add: findById_def stateA1_def articleA1_def carl_def hasPermission_def errorStatus_def)

text \<open>
  The claim as stated (a hidden draft is reported as not found, like a nonexistent id)
  fails: the reader Rita fetching Alice's draft \<open>a1\<close> gets the forbidden error, status
  403, while the nonexistent id \<open>a2\<close> gives not found, status 404.
\<close>

theorem getById_hidden_draft_counterexample:
  "map_option status (findById (stateA1 draft 1) ''a1'') = Some draft
   \<and> map_option authorId (findById (stateA1 draft 1) ''a1'') \<noteq> Some (uid rita)
   \<and> \<not> hasPermission rita article_view_draft_all
   \<and> fst (getById (stateA1 draft 1) 2000 ''a1'' rita)
        = Inl (ForbiddenError ''You do not have permission to view this draft'')
   \<and> errorStatus (fst (getById (stateA1 draft 1) 2000 ''a1'' rita)) = Some 403
   \<and> fst (getById (stateA1 draft 1) 2000 ''a2'' rita) = Inl (NotFoundError ''Article'' ''a2'')
   \<and> errorStatus (fst (getById (stateA1 draft 1) 2000 ''a2'' rita)) = Some 404"
  by (simp add: getById_def findById_def stateA1_def articleA1_def rita_def hasPermission_def
      errorStatus_def)

subsection \<open>The version store\<close>

text \<open>
  Claim C5, as the code has it. \<open>createVersion\<close> does not look for an existing record:
  it returns the snapshot of the article and stores it under (article id, version
  number), whatever was stored there before; every other version record and the
  articles are untouched.
\<close>

theorem createVersion_replaces:
  "fst (createVersion s now newId article byId byName reason)
     = createVersionFromArticle article byId byName reason now newId
   \<and> getVersion (snd (createVersion s now newId article byId byName reason))
        (aid article) (version article)
     = Some (createVersionFromArticle article byId byName reason now newId)
   \<and> (\<forall>i n. i \<noteq> aid article \<or> n \<noteq> version article \<longrightarrow>
        getVersion (snd (createVersion s now newId article byId byName reason)) i n
          = getVersion s i n)
   \<and> articles (snd (createVersion s now newId article byId byName reason)) = articles s"
  by (auto simp: createVersion_def getVersion_def createVersionFromArticle_def Let_def)

theorem createVersion_replaces_witness:
  "getVersion (stateA1 draft 1) ''a1'' 1 = Some (snapshotA1 draft)
   \<and> getVersion
        (snd (createVersion (stateA1 draft 1) 2000 ''v-2''
               ((articleA1 draft)\<lparr>briefTitle := ''Another title''\<rparr>) ''u-bob'' ''Bob'' None))
        ''a1'' 1
     = Some (createVersionFromArticle ((articleA1 draft)\<lparr>briefTitle := ''Another title''\<rparr>)
               ''u-bob'' ''Bob'' None 2000 ''v-2'')
   \<and> getVersion
        (snd (createVersion (stateA1 draft 1) 2000 ''v-2''
               ((articleA1 draft)\<lparr>briefTitle := ''Another title''\<rparr>) ''u-bob'' ''Bob'' None))
        ''a1'' 2
     = None"
  using createVersion_replaces [of "stateA1 draft 1" 2000 "''v-2''"
      "(articleA1 draft)\<lparr>briefTitle := ''Another title''\<rparr>" "''u-bob''" "''Bob''" None]
  by (simp add: getVersion_def stateA1_def articleA1_def)

text \<open>
  The claim as stated (a second \<open>createVersion\<close> for a stored pair fails and the stored
  record stays) does not hold: with the first snapshot of \<open>a1\<close> stored, a call for
  \<open>a1\<close> at version 1 with another title returns a record for that pair, and the
  stored record is the new one.
\<close>

theorem createVersion_never_overwrites_counterexample:
  "getVersion (stateA1 draft 1) ''a1'' 1 = Some (snapshotA1 draft)
   \<and> v_articleId (fst (createVersion (stateA1 draft 1) 2000 ''v-2''
               ((articleA1 draft)\<lparr>briefTitle := ''Another title''\<rparr>) ''u-bob'' ''Bob'' None))
       = ''a1''
   \<and> v_version (fst (createVersion (stateA1 draft 1) 2000 ''v-2''
               ((articleA1 draft)\<lparr>briefTitle := ''Another title''\<rparr>) ''u-bob'' ''Bob'' None))
       = 1
   \<and> getVersion
        (snd (createVersion (stateA1 draft 1) 2000 ''v-2''
               ((articleA1 draft)\<lparr>briefTitle := ''Another title''\<rparr>) ''u-bob'' ''Bob'' None))
        ''a1'' 1
     \<noteq> Some (snapshotA1 draft)
   \<and> map_option v_briefTitle (getVersion
        (snd (createVersion (stateA1 draft 1) 2000 ''v-2''
               ((articleA1 draft)\<lparr>briefTitle := ''Another title''\<rparr>) ''u-bob'' ''Bob'' None))
        ''a1'' 1)
     = Some ''Another title''"
  by (simp add: createVersion_def getVersion_def createVersionFromArticle_def Let_def
      stateA1_def articleA1_def snapshotA1_def)

subsection \<open>Publishing and archiving\<close>

lemma FileArticleRepository_update_found:
  "findById s articleId = Some a \<Longrightarrow>
   FileArticleRepository_update s now articleId input =
     Inr ((spreadInput a input)\<lparr>updatedAt := now, version := version a + 1,
            publishedAt := (if u_status input = Some published \<and> publishedAt a = None
                            then Some now else publishedAt a)\<rparr>,
          s\<lparr>articles := (articles s)(aid (spreadInput a input) \<mapsto>
               (spreadInput a input)\<lparr>updatedAt := now, version := version a + 1,
                 publishedAt := (if u_status input = Some published \<and> publishedAt a = None
                                 then Some now else publishedAt a)\<rparr>)\<rparr>)"
  by (simp add: FileArticleRepository_update_def Let_def)

lemma spreadInput_status_only:
  "spreadInput a (noInput\<lparr>u_status := Some st\<rparr>) = a\<lparr>status := st\<rparr>"
  by (simp add: spreadInput_def noInput_def)

lemma publish_rejects_other_status:
  "findById s articleId = Some a \<Longrightarrow> status a \<noteq> draft \<Longrightarrow>
   publish s now vid articleId user
     = (Inl (BadRequestError ''Only draft articles can be published''), s)"
  by (simp add: publish_def)

lemma publish_draft:
  assumes "findById s articleId = Some a" "status a = draft"
    "hasPermission user article_publish_all
       \<or> hasPermission user article_publish_own \<and> authorId a = uid user"
  shows "\<exists>a' s'. publish s now vid articleId user = (Inr a', s')
     \<and> status a' = published
     \<and> publishedAt a' = (if publishedAt a = None then Some now else publishedAt a)
     \<and> version a' = version a + 1
     \<and> findById s' (aid a) = Some a'
     \<and> getVersion s' (aid a) (version a + 1)
         = Some (createVersionFromArticle a' (uid user) (displayName user)
                   (Some ''Published'') now vid)
     \<and> v_status (createVersionFromArticle a' (uid user) (displayName user)
                   (Some ''Published'') now vid) = published"
  using assms
  by (auto simp: publish_def Let_def FileArticleRepository_update_found spreadInput_status_only
      createVersion_def getVersion_def findById_def createVersionFromArticle_def)

lemma publish_success_was_draft:
  "publish s now vid articleId user = (Inr a', s') \<Longrightarrow>
   \<exists>a. findById s articleId = Some a \<and> status a = draft"
  by (auto simp: publish_def Let_def split: option.splits if_splits sum.splits prod.splits)

lemma archive_rejects_other_status:
  "findById s articleId = Some a \<Longrightarrow> status a \<noteq> published \<Longrightarrow>
   archive s now vid articleId user =
     (if hasPermission user article_archive
      then (Inl (BadRequestError ''Only published articles can be archived''), s)
      else (Inl (ForbiddenError ''You do not have permission to archive articles''), s))"
  by (simp add: archive_def)

lemma archive_published:
  assumes "findById s articleId = Some a" "status a = published"
    "hasPermission user article_archive"
  shows "\<exists>a' s'. archive s now vid articleId user = (Inr a', s')
     \<and> status a' = archived
     \<and> version a' = version a + 1
     \<and> findById s' (aid a) = Some a'
     \<and> getVersion s' (aid a) (version a + 1)
         = Some (createVersionFromArticle a' (uid user) (displayName user)
                   (Some ''Archived'') now vid)
     \<and> v_status (createVersionFromArticle a' (uid user) (displayName user)
                   (Some ''Archived'') now vid) = archived"
  using assms
  by (auto simp: archive_def Let_def FileArticleRepository_update_found spreadInput_status_only
      createVersion_def getVersion_def findById_def createVersionFromArticle_def)

lemma archive_success_was_published:
  "archive s now vid articleId user = (Inr a', s') \<Longrightarrow>
   \<exists>a. findById s articleId = Some a \<and> status a = published"
  by (auto simp: archive_def Let_def split: option.splits if_splits sum.splits prod.splits)

text \<open>
  Claim C6. \<open>publish\<close> rejects an article whose status is not draft as bad input, for
  every caller; on a draft, a caller with the publish permission gets the article back
  with status published, \<open>publishedAt\<close> set to \<open>now\<close> if it was unset and kept
  otherwise, the version one higher, and a snapshot of it stored under that version; a
  call that succeeds was made on a draft. \<open>archive\<close> rejects every status but
  published (bad input for a caller who may archive, forbidden for one who may not); on
  a published article a caller who may archive gets status archived and a snapshot; a
  call that succeeds was made on a published article.
\<close>

theorem publish_archive_transitions:
  "(\<forall>a. findById s articleId = Some a \<and> status a \<noteq> draft \<longrightarrow>
       publish s now vid articleId user
         = (Inl (BadRequestError ''Only draft articles can be published''), s))
   \<and> (\<forall>a. findById s articleId = Some a \<and> status a = draft
          \<and> (hasPermission user article_publish_all
              \<or> hasPermission user article_publish_own \<and> authorId a = uid user) \<longrightarrow>
       (\<exists>a' s'. publish s now vid articleId user = (Inr a', s')
          \<and> status a' = published
          \<and> publishedAt a' = (if publishedAt a = None then Some now else publishedAt a)
          \<and> version a' = version a + 1
          \<and> findById s' (aid a) = Some a'
          \<and> getVersion s' (aid a) (version a + 1)
              = Some (createVersionFromArticle a' (uid user) (displayName user)
                        (Some ''Published'') now vid)
          \<and> v_status (createVersionFromArticle a' (uid user) (displayName user)
                        (Some ''Published'') now vid) = published))
   \<and> (\<forall>a' s'. publish s now vid articleId user = (Inr a', s') \<longrightarrow>
       (\<exists>a. findById s articleId = Some a \<and> status a = draft))
   \<and> (\<forall>a. findById s articleId = Some a \<and> status a \<noteq> published \<longrightarrow>
       archive s now vid articleId user =
         (if hasPermission user article_archive
          then (Inl (BadRequestError ''Only published articles can be archived''), s)
          else (Inl (ForbiddenError ''You do not have permission to archive articles''), s)))
   \<and> (\<forall>a. findById s articleId = Some a \<and> status a = published
          \<and> hasPermission user article_archive \<longrightarrow>
       (\<exists>a' s'. archive s now vid articleId user = (Inr a', s')
          \<and> status a' = archived
          \<and> version a' = version a + 1
          \<and> findById s' (aid a) = Some a'
          \<and> getVersion s' (aid a) (version a + 1)
              = Some (createVersionFromArticle a' (uid user) (displayName user)
                        (Some ''Archived'') now vid)
          \<and> v_status (createVersionFromArticle a' (uid user) (displayName user)
                        (Some ''Archived'') now vid) = archived))
   \<and> (\<forall>a' s'. archive s now vid articleId user = (Inr a', s') \<longrightarrow>
       (\<exists>a. findById s articleId = Some a \<and> status a = published))"
proof (intro conjI allI impI)
  fix a assume "findById s articleId = Some a \<and> status a \<noteq> draft"
  then show "publish s now vid articleId user
         = (Inl (BadRequestError ''Only draft articles can be published''), s)"
    by (simp add: publish_rejects_other_status)
next
  fix a assume "findById s articleId = Some a \<and> status a = draft
          \<and> (hasPermission user article_publish_all
              \<or> hasPermission user article_publish_own \<and> authorId a = uid user)"
  then have "findById s articleId = Some a" "status a = draft"
    "hasPermission user article_publish_all
       \<or> hasPermission user article_publish_own \<and> authorId a = uid user"
    by simp_all
  then show "\<exists>a' s'. publish s now vid articleId user = (Inr a', s')
          \<and> status a' = published
          \<and> publishedAt a' = (if publishedAt a = None then Some now else publishedAt a)
          \<and> version a' = version a + 1
          \<and> findById s' (aid a) = Some a'
          \<and> getVersion s' (aid a) (version a + 1)
              = Some (createVersionFromArticle a' (uid user) (displayName user)
                        (Some ''Published'') now vid)
          \<and> v_status (createVersionFromArticle a' (uid user) (displayName user)
                        (Some ''Published'') now vid) = published"
    by (rule publish_draft)
next
  fix a' s' assume "publish s now vid articleId user = (Inr a', s')"
  then show "\<exists>a. findById s articleId = Some a \<and> status a = draft"
    by (rule publish_success_was_draft)
next
  fix a assume "findById s articleId = Some a \<and> status a \<noteq> published"
  then show "archive s now vid articleId user =
         (if hasPermission user article_archive
          then (Inl (BadRequestError ''Only published articles can be archived''), s)
          else (Inl (ForbiddenError ''You do not have permission to archive articles''), s))"
    using archive_rejects_other_status by blast
next
  fix a assume "findById s articleId = Some a \<and> status a = published
          \<and> hasPermission user article_archive"
  then have "findById s articleId = Some a" "status a = published"
    "hasPermission user article_archive"
    by simp_all
  then show "\<exists>a' s'. archive s now vid articleId user = (Inr a', s')
          \<and> status a' = archived
          \<and> version a' = version a + 1
          \<and> findById s' (aid a) = Some a'
          \<and> getVersion s' (aid a) (version a + 1)
              = Some (createVersionFromArticle a' (uid user) (displayName user)
                        (Some ''Archived'') now vid)
          \<and> v_status (createVersionFromArticle a' (uid user) (displayName user)
                        (Some ''Archived'') now vid) = archived"
    by (rule archive_published)
next
  fix a' s' assume "archive s now vid articleId user = (Inr a', s')"
  then show "\<exists>a. findById s articleId = Some a \<and> status a = published"
    by (rule archive_success_was_published)
qed

theorem publish_archive_transitions_witness:
  "findById (stateA1 draft 1) ''a1'' = Some (articleA1 draft)
   \<and> hasPermission alice article_publish_own \<and> authorId (articleA1 draft) = uid alice
   \<and> map_option status (findById (snd (publish (stateA1 draft 1) 2000 ''v-2'' ''a1'' alice)) ''a1'')
       = Some published
   \<and> map_option publishedAt
        (findById (snd (publish (stateA1 draft 1) 2000 ''v-2'' ''a1'' alice)) ''a1'')
       = Some (Some 2000)
   \<and> map_option v_status (getVersion (snd (publish (stateA1 draft 1) 2000 ''v-2'' ''a1'' alice))
        ''a1'' 2) = Some published
   \<and> fst (publish (stateA1 archived 1) 2000 ''v-2'' ''a1'' alice)
       = Inl (BadRequestError ''Only draft articles can be published'')
   \<and> hasPermission erin article_archive
   \<and> map_option status (findById (snd (archive (stateA1 published 1) 2000 ''v-2'' ''a1'' erin)) ''a1'')
       = Some archived
   \<and> map_option v_status (getVersion (snd (archive (stateA1 published 1) 2000 ''v-2'' ''a1'' erin))
        ''a1'' 2) = Some archived
   \<and> fst (archive (stateA1 draft 1) 2000 ''v-2'' ''a1'' erin)
       = Inl (BadRequestError ''Only published articles can be archived'')"
  using publish_archive_transitions [of "stateA1 draft 1" "''a1''" 2000 "''v-2''" alice]
    publish_archive_transitions [of "stateA1 archived 1" "''a1''" 2000 "''v-2''" alice]
    publish_archive_transitions [of "stateA1 published 1" "''a1''" 2000 "''v-2''" erin]
    publish_archive_transitions [of "stateA1 draft 1" "''a1''" 2000 "''v-2''" erin]
  by (auto simp: findById_def stateA1_def articleA1_def alice_def erin_def hasPermission_def
      getVersion_def createVersionFromArticle_def numeral_2_eq_2)

subsection \<open>Creating an article\<close>

lemma validateString_enum:
  "validateString path (optionalRule\<lparr>enumValues := Some vs\<rparr>) v = [] \<longleftrightarrow>
     (case v of None \<Rightarrow> True | Some x \<Rightarrow> x \<in> set vs)"
  by (simp add: validateString_def optionalRule_def Let_def split: option.splits)

lemma validateCreateBody_status:
  "validateCreateBody body = [] \<Longrightarrow>
   b_status body = None \<or> b_status body = Some ''draft'' \<or> b_status body = Some ''published''"
  by (auto simp: validateCreateBody_def validateString_enum split: option.splits)

lemma bodyAsInput_status:
  "b_status body = None \<or> b_status body = Some ''draft'' \<or> b_status body = Some ''published'' \<Longrightarrow>
   c_status (bodyAsInput body) =
     (if b_status body = None then None
      else if b_status body = Some ''published'' then Some published else Some draft)"
  by (auto simp: bodyAsInput_def statusOfString_def)

lemma ArticleService_create_result:
  "ArticleService_create s now newId vid input user = (Inr a, s') \<Longrightarrow>
   status a = (case c_status input of None \<Rightarrow> draft | Some st \<Rightarrow> st)
   \<and> publishedAt a = (if c_status input = Some published then Some now else None)
   \<and> version a = 1 \<and> aid a = newId
   \<and> findById s' newId = Some a
   \<and> getVersion s' newId 1
       = Some (createVersionFromArticle a (uid user) (displayName user)
                 (Some ''Initial creation'') now vid)"
  by (auto simp: ArticleService_create_def FileArticleRepository_create_def Let_def
      createVersion_def updateArticleCount_def findById_def getVersion_def
      createVersionFromArticle_def
      split: if_splits option.splits)

lemma ArticleService_create_succeeds:
  "hasPermission user article_create \<Longrightarrow>
   validateArticleInput (asUpdateInput input) True = [] \<Longrightarrow>
   \<exists>a s'. ArticleService_create s now newId vid input user = (Inr a, s')"
  by (simp add: ArticleService_create_def Let_def split: prod.splits)

lemma requireRole_author:
  "requireRole author user = None \<longleftrightarrow> role user = author \<or> role user = editor"
  by (cases "role user") (simp_all add: requireRole_def)

text \<open>
  Claim C10. A \<open>POST /api/articles\<close> that succeeds was given no status, \<open>draft\<close> or
  \<open>published\<close>; the article it persists has status published exactly when
  \<open>published\<close> was supplied and draft otherwise, \<open>publishedAt\<close> set to the creation
  time exactly when \<open>published\<close> was supplied, and version 1; its first snapshot
  carries that status, so an article created as published has no draft snapshot and
  never went through \<open>publish\<close>. For an author or editor, a body that passes both
  validations is accepted.
\<close>

theorem create_accepts_initial_status:
  "(\<forall>a s'. POST_articles s now newId vid body user = (Inr a, s') \<longrightarrow>
       (b_status body = None \<or> b_status body = Some ''draft''
          \<or> b_status body = Some ''published'')
       \<and> status a = (if b_status body = Some ''published'' then published else draft)
       \<and> publishedAt a = (if b_status body = Some ''published'' then Some now else None)
       \<and> version a = 1
       \<and> findById s' newId = Some a
       \<and> getVersion s' newId 1
           = Some (createVersionFromArticle a (uid user) (displayName user)
                     (Some ''Initial creation'') now vid)
       \<and> v_status (createVersionFromArticle a (uid user) (displayName user)
                     (Some ''Initial creation'') now vid)
           = (if b_status body = Some ''published'' then published else draft))
   \<and> ((role user = author \<or> role user = editor)
        \<and> validateCreateBody body = []
        \<and> validateArticleInput (asUpdateInput (bodyAsInput body)) True = [] \<longrightarrow>
       (\<exists>a s'. POST_articles s now newId vid body user = (Inr a, s')))"
proof (intro conjI allI impI)
  fix a s' assume ok: "POST_articles s now newId vid body user = (Inr a, s')"
  then have valid: "validateCreateBody body = []"
    and run: "ArticleService_create s now newId vid (bodyAsInput body) user = (Inr a, s')"
    by (auto simp: POST_articles_def articleController_create_def Let_def
        split: option.splits if_splits)
  from valid have st: "b_status body = None \<or> b_status body = Some ''draft''
          \<or> b_status body = Some ''published''"
    by (rule validateCreateBody_status)
  note res = ArticleService_create_result [OF run] bodyAsInput_status [OF st]
  show "b_status body = None \<or> b_status body = Some ''draft''
          \<or> b_status body = Some ''published''"
    by (rule st)
  show "status a = (if b_status body = Some ''published'' then published else draft)"
    using res st by auto
  show "publishedAt a = (if b_status body = Some ''published'' then Some now else None)"
    using res st by auto
  show "version a = 1" using res by simp
  show "findById s' newId = Some a" using res by simp
  show "getVersion s' newId 1
           = Some (createVersionFromArticle a (uid user) (displayName user)
                     (Some ''Initial creation'') now vid)"
    using res by simp
  show "v_status (createVersionFromArticle a (uid user) (displayName user)
                     (Some ''Initial creation'') now vid)
           = (if b_status body = Some ''published'' then published else draft)"
    using res st by (auto simp: createVersionFromArticle_def)
next
  assume h: "(role user = author \<or> role user = editor)
        \<and> validateCreateBody body = []
        \<and> validateArticleInput (asUpdateInput (bodyAsInput body)) True = []"
  then have "hasPermission user article_create"
    by (auto simp: hasPermission_def)
  with h show "\<exists>a s'. POST_articles s now newId vid body user = (Inr a, s')"
    using ArticleService_create_succeeds [of user "bodyAsInput body" s now newId vid]
    by (auto simp: POST_articles_def articleController_create_def requireRole_author Let_def
        split: option.splits)
qed

lemma validateCreateBody_publishedBody: "validateCreateBody publishedBody = []"
  by (simp add: validateCreateBody_def validateString_def publishedBody_def optionalRule_def
      TITLE_MIN_LENGTH_def TITLE_MAX_LENGTH_def DESCRIPTION_MIN_LENGTH_def
      DESCRIPTION_MAX_LENGTH_def CATEGORY_MAX_LENGTH_def)

lemma validateArticleInput_publishedBody:
  "validateArticleInput (asUpdateInput (bodyAsInput publishedBody)) True = []"
  by (simp add: validateArticleInput_def asUpdateInput_def bodyAsInput_def publishedBody_def
      orEmpty_def TITLE_MIN_LENGTH_def TITLE_MAX_LENGTH_def DESCRIPTION_MIN_LENGTH_def
      DESCRIPTION_MAX_LENGTH_def CATEGORY_MAX_LENGTH_def MAX_TAGS_def TAG_MAX_LENGTH_def
      MAX_RELATED_ARTICLES_def)

theorem create_accepts_initial_status_witness:
  "role alice = author
   \<and> validateCreateBody publishedBody = []
   \<and> validateArticleInput (asUpdateInput (bodyAsInput publishedBody)) True = []
   \<and> b_status publishedBody = Some ''published''
   \<and> map_option status
        (findById (snd (POST_articles emptyState 1000 ''a1'' ''v-1'' publishedBody alice)) ''a1'')
       = Some published
   \<and> map_option publishedAt
        (findById (snd (POST_articles emptyState 1000 ''a1'' ''v-1'' publishedBody alice)) ''a1'')
       = Some (Some 1000)
   \<and> map_option v_status
        (getVersion (snd (POST_articles emptyState 1000 ''a1'' ''v-1'' publishedBody alice))
           ''a1'' 1)
       = Some published
   \<and> map_option status
        (findById (snd (POST_articles emptyState 1000 ''a1'' ''v-1''
                          (publishedBody\<lparr>b_status := None\<rparr>) alice)) ''a1'')
       = Some draft"
proof -
  have b: "validateCreateBody (publishedBody\<lparr>b_status := None\<rparr>) = []"
    by (simp add: validateCreateBody_def validateString_def publishedBody_def optionalRule_def
      TITLE_MIN_LENGTH_def TITLE_MAX_LENGTH_def DESCRIPTION_MIN_LENGTH_def
      DESCRIPTION_MAX_LENGTH_def CATEGORY_MAX_LENGTH_def)
  have c: "validateArticleInput (asUpdateInput (bodyAsInput (publishedBody\<lparr>b_status := None\<rparr>))) True = []"
    by (simp add: validateArticleInput_def asUpdateInput_def bodyAsInput_def publishedBody_def
      orEmpty_def TITLE_MIN_LENGTH_def TITLE_MAX_LENGTH_def DESCRIPTION_MIN_LENGTH_def
      DESCRIPTION_MAX_LENGTH_def CATEGORY_MAX_LENGTH_def MAX_TAGS_def TAG_MAX_LENGTH_def
      MAX_RELATED_ARTICLES_def)
  have r: "role alice = author" by (simp add: alice_def)
  have p: "b_status publishedBody = Some ''published''" by (simp add: publishedBody_def)
  show ?thesis
    using create_accepts_initial_status [of emptyState 1000 "''a1''" "''v-1''" publishedBody alice]
      create_accepts_initial_status [of emptyState 1000 "''a1''" "''v-1''"
        "publishedBody\<lparr>b_status := None\<rparr>" alice]
      validateCreateBody_publishedBody validateArticleInput_publishedBody b c r p
    by auto
qed

subsection \<open>Restoring a version\<close>

lemma createVersionFromArticle_sel [simp]:
  "v_id (createVersionFromArticle a byId byName reason t newId) = newId"
  "v_articleId (createVersionFromArticle a byId byName reason t newId) = aid a"
  "v_version (createVersionFromArticle a byId byName reason t newId) = version a"
  "v_briefTitle (createVersionFromArticle a byId byName reason t newId) = briefTitle a"
  "v_detailedDescription (createVersionFromArticle a byId byName reason t newId)
     = detailedDescription a"
  "v_category (createVersionFromArticle a byId byName reason t newId) = category a"
  "v_tags (createVersionFromArticle a byId byName reason t newId) = tags a"
  "v_relatedArticles (createVersionFromArticle a byId byName reason t newId)
     = relatedArticles a"
  "v_status (createVersionFromArticle a byId byName reason t newId) = status a"
  "changedBy (createVersionFromArticle a byId byName reason t newId) = byId"
  "changedByName (createVersionFromArticle a byId byName reason t newId) = byName"
  "changedAt (createVersionFromArticle a byId byName reason t newId) = t"
  "changeReason (createVersionFromArticle a byId byName reason t newId) = reason"
  by (simp_all add: createVersionFromArticle_def)

lemma restoreVersion_current_rejected:
  assumes "findById s articleId = Some a" "getVersion s articleId n = Some v"
    "hasPermission user article_version_restore_all
       \<or> hasPermission user article_version_restore_own \<and> authorId a = uid user"
    "n = version a"
  shows "restoreVersion s now vid articleId n user
           = (Inl (BadRequestError ''Cannot restore to current version''), s)"
  using assms by (auto simp: restoreVersion_def Let_def)

lemma restoreVersion_copies:
  assumes "findById s articleId = Some a" "getVersion s articleId n = Some v"
    "hasPermission user article_version_restore_all
       \<or> hasPermission user article_version_restore_own \<and> authorId a = uid user"
    "n \<noteq> version a"
  shows "\<exists>r s' a'. restoreVersion s now vid articleId n user = (Inr r, s')
     \<and> findById s' (aid a) = Some a'
     \<and> briefTitle a' = v_briefTitle v
     \<and> detailedDescription a' = v_detailedDescription v
     \<and> category a' = v_category v
     \<and> tags a' = v_tags v
     \<and> relatedArticles a' = v_relatedArticles v
     \<and> status a' = status a
     \<and> version a' = version a + 1
     \<and> version a < version a'
     \<and> getVersion s' (aid a) (version a + 1) = Some r
     \<and> r = createVersionFromArticle a' (uid user) (displayName user)
               (Some (''Restored from version '' @ numberToString n)) now vid"
  using assms
  by (auto simp: restoreVersion_def Let_def FileArticleRepository_update_found
      spreadInput_def createVersion_def getVersion_def findById_def)

text \<open>
  Claim C4. For an article, a stored version \<open>n\<close> of it and a caller who may restore
  versions of it: when \<open>n\<close> is not the article's current version, \<open>restoreVersion\<close>
  succeeds, the stored article has the title, body, category, tags and related articles
  of version \<open>n\<close>, its own status, and a version number one above (so strictly above)
  the prior one, and the returned snapshot is stored under that new number with the
  copied content and the reason \<open>Restored from version n\<close>; when \<open>n\<close> is the current
  version the call is rejected as a bad request (HTTP 400) and the state, so the
  article, is unchanged.
\<close>

theorem restoreVersion_copies_content:
  "(\<forall>a v. findById s articleId = Some a \<and> getVersion s articleId n = Some v
       \<and> (hasPermission user article_version_restore_all
           \<or> hasPermission user article_version_restore_own \<and> authorId a = uid user) \<longrightarrow>
       (n = version a \<longrightarrow>
          restoreVersion s now vid articleId n user
            = (Inl (BadRequestError ''Cannot restore to current version''), s)
          \<and> errorStatus (fst (restoreVersion s now vid articleId n user)) = Some 400)
       \<and> (n \<noteq> version a \<longrightarrow>
          (\<exists>r s' a'. restoreVersion s now vid articleId n user = (Inr r, s')
             \<and> findById s' (aid a) = Some a'
             \<and> briefTitle a' = v_briefTitle v
             \<and> detailedDescription a' = v_detailedDescription v
             \<and> category a' = v_category v
             \<and> tags a' = v_tags v
             \<and> relatedArticles a' = v_relatedArticles v
             \<and> status a' = status a
             \<and> version a' = version a + 1
             \<and> version a < version a'
             \<and> getVersion s' (aid a) (version a + 1) = Some r
             \<and> v_version r = version a + 1
             \<and> v_briefTitle r = v_briefTitle v
             \<and> v_detailedDescription r = v_detailedDescription v
             \<and> v_category r = v_category v
             \<and> v_tags r = v_tags v
             \<and> v_relatedArticles r = v_relatedArticles v
             \<and> changeReason r = Some (''Restored from version '' @ numberToString n))))"
proof (intro allI impI conjI)
  fix a v
  assume h: "findById s articleId = Some a \<and> getVersion s articleId n = Some v
       \<and> (hasPermission user article_version_restore_all
           \<or> hasPermission user article_version_restore_own \<and> authorId a = uid user)"
    and eq: "n = version a"
  then have r: "restoreVersion s now vid articleId n user
            = (Inl (BadRequestError ''Cannot restore to current version''), s)"
    using restoreVersion_current_rejected [of s articleId a n v user now vid] by blast
  then show "restoreVersion s now vid articleId n user
            = (Inl (BadRequestError ''Cannot restore to current version''), s)" .
  from r show "errorStatus (fst (restoreVersion s now vid articleId n user)) = Some 400"
    by (simp add: errorStatus_def)
next
  fix a v
  assume h: "findById s articleId = Some a \<and> getVersion s articleId n = Some v
       \<and> (hasPermission user article_version_restore_all
           \<or> hasPermission user article_version_restore_own \<and> authorId a = uid user)"
    and ne: "n \<noteq> version a"
  then obtain r s' a' where
    "restoreVersion s now vid articleId n user = (Inr r, s')"
    "findById s' (aid a) = Some a'"
    "briefTitle a' = v_briefTitle v"
    "detailedDescription a' = v_detailedDescription v"
    "category a' = v_category v"
    "tags a' = v_tags v"
    "relatedArticles a' = v_relatedArticles v"
    "status a' = status a"
    "version a' = version a + 1"
    "version a < version a'"
    "getVersion s' (aid a) (version a + 1) = Some r"
    "r = createVersionFromArticle a' (uid user) (displayName user)
               (Some (''Restored from version '' @ numberToString n)) now vid"
    using restoreVersion_copies [of s articleId a n v user now vid] by blast
  then show "\<exists>r s' a'. restoreVersion s now vid articleId n user = (Inr r, s')
             \<and> findById s' (aid a) = Some a'
             \<and> briefTitle a' = v_briefTitle v
             \<and> detailedDescription a' = v_detailedDescription v
             \<and> category a' = v_category v
             \<and> tags a' = v_tags v
             \<and> relatedArticles a' = v_relatedArticles v
             \<and> status a' = status a
             \<and> version a' = version a + 1
             \<and> version a < version a'
             \<and> getVersion s' (aid a) (version a + 1) = Some r
             \<and> v_version r = version a + 1
             \<and> v_briefTitle r = v_briefTitle v
             \<and> v_detailedDescription r = v_detailedDescription v
             \<and> v_category r = v_category v
             \<and> v_tags r = v_tags v
             \<and> v_relatedArticles r = v_relatedArticles v
             \<and> changeReason r = Some (''Restored from version '' @ numberToString n)"
    by simp
qed

theorem restoreVersion_copies_content_witness:
  "findById stateA1v2 ''a1'' = Some articleA1v2
   \<and> getVersion stateA1v2 ''a1'' 1 = Some (snapshotA1 draft)
   \<and> hasPermission alice article_version_restore_own \<and> authorId articleA1v2 = uid alice
   \<and> version articleA1v2 = 2
   \<and> briefTitle articleA1v2 = ''Reset your password''
   \<and> map_option briefTitle
        (findById (snd (restoreVersion stateA1v2 2000 ''v-3'' ''a1'' 1 alice)) ''a1'')
       = Some ''Reset a password''
   \<and> map_option version
        (findById (snd (restoreVersion stateA1v2 2000 ''v-3'' ''a1'' 1 alice)) ''a1'')
       = Some 3
   \<and> map_option changeReason
        (getVersion (snd (restoreVersion stateA1v2 2000 ''v-3'' ''a1'' 1 alice)) ''a1'' 3)
       = Some (Some ''Restored from version 1'')
   \<and> restoreVersion stateA1v2 2000 ''v-3'' ''a1'' 2 alice
       = (Inl (BadRequestError ''Cannot restore to current version''), stateA1v2)"
  using restoreVersion_copies_content [of stateA1v2 "''a1''" 1 alice 2000 "''v-3''"]
    restoreVersion_copies_content [of stateA1v2 "''a1''" 2 alice 2000 "''v-3''"]
  by (auto simp: findById_def getVersion_def stateA1v2_def articleA1v2_def articleA1_def
      snapshotA1_def createVersionFromArticle_def alice_def hasPermission_def
      numberToString_digit digitChar_def numeral_3_eq_3)

subsection \<open>Soft delete and restore from trash\<close>

lemma releaseLock_keeps [simp]:
  "articles (snd (releaseLock s i u)) = articles s"
  "categories (snd (releaseLock s i u)) = categories s"
  "versionFiles (snd (releaseLock s i u)) = versionFiles s"
  by (simp_all add: releaseLock_def deleteLock_def split: option.splits)

lemma createVersion_keeps [simp]:
  "articles (snd (createVersion s t vid a byId byName reason)) = articles s"
  "categories (snd (createVersion s t vid a byId byName reason)) = categories s"
  "lockFiles (snd (createVersion s t vid a byId byName reason)) = lockFiles s"
  by (simp_all add: createVersion_def Let_def)

lemma updateArticleCount_keeps [simp]:
  "articles (updateArticleCount s c d) = articles s"
  "versionFiles (updateArticleCount s c d) = versionFiles s"
  "lockFiles (updateArticleCount s c d) = lockFiles s"
  by (simp_all add: updateArticleCount_def split: option.splits)

lemma storedCount_categories:
  "categories s' = categories s \<Longrightarrow> storedCount s' c = storedCount s c"
  by (simp add: storedCount_def)

lemma ArticleService_delete_found:
  assumes "findById s articleId = Some a"
    "hasPermission user article_delete_all
       \<or> hasPermission user article_delete_own \<and> authorId a = uid user"
  shows "ArticleService_delete s now vid articleId user =
     (let s1 = snd (releaseLock s articleId (orElse (lockedBy a) (uid user)));
          a1 = a\<lparr>status := deleted, updatedAt := now, version := version a + 1\<rparr>;
          s2 = s1\<lparr>articles := (articles s1)(aid a \<mapsto> a1)\<rparr>;
          s3 = updateArticleCount s2 (category a) (- 1)
      in (Inr a1, snd (createVersion s3 now vid a1 (uid user) (displayName user)
                         (Some ''Moved to trash''))))"
  using assms
  by (auto simp: ArticleService_delete_def softDelete_def Let_def findById_def
      FileArticleRepository_update_def spreadInput_status_only case_prod_beta)

lemma ArticleService_restore_found:
  assumes "findById s articleId = Some a" "status a = deleted"
    "hasPermission user article_restore_all
       \<or> hasPermission user article_restore_own \<and> authorId a = uid user"
  shows "ArticleService_restore s now vid articleId user =
     (let a1 = a\<lparr>status := draft, updatedAt := now, version := version a + 1\<rparr>;
          s1 = s\<lparr>articles := (articles s)(aid a \<mapsto> a1)\<rparr>;
          s2 = updateArticleCount s1 (category a) 1
      in (Inr a1, snd (createVersion s2 now vid a1 (uid user) (displayName user)
                         (Some ''Restored from trash''))))"
  using assms
  by (auto simp: ArticleService_restore_def FileArticleRepository_restore_def Let_def
      findById_def FileArticleRepository_update_def spreadInput_status_only case_prod_beta)

lemma delete_then_restore:
  assumes "findById s articleId = Some a" and "aid a = articleId" and "status a \<noteq> deleted"
    and "hasPermission u1 article_delete_all
           \<or> hasPermission u1 article_delete_own \<and> authorId a = uid u1"
    and "hasPermission u2 article_restore_all
           \<or> hasPermission u2 article_restore_own \<and> authorId a = uid u2"
    and "storedCount s (category a) = Some n"
  shows "\<exists>a1 s1 a2 s2.
      ArticleService_delete s t1 v1 articleId u1 = (Inr a1, s1)
      \<and> status a1 = deleted
      \<and> storedCount s1 (category a) = Some (max 0 (n - 1))
      \<and> ArticleService_restore s1 t2 v2 articleId u2 = (Inr a2, s2)
      \<and> status a2 = draft
      \<and> storedCount s2 (category a) = Some (max 0 (n - 1) + 1)
      \<and> (1 \<le> n \<longrightarrow> storedCount s1 (category a) = Some (n - 1)
                      \<and> storedCount s2 (category a) = Some n)"
proof -
  define a1 where "a1 = a\<lparr>status := deleted, updatedAt := t1, version := version a + 1\<rparr>"
  define s1 where "s1 = snd (ArticleService_delete s t1 v1 articleId u1)"
  have d: "ArticleService_delete s t1 v1 articleId u1 = (Inr a1, s1)"
    using assms(1,4) by (simp add: ArticleService_delete_found Let_def a1_def s1_def)
  have c1: "storedCount s1 (category a) = Some (max 0 (n - 1))"
    unfolding s1_def using assms(1,4,6)
    by (simp add: ArticleService_delete_found Let_def
        storedCount_categories [of "snd (createVersion _ _ _ _ _ _ _)"]
        storedCount_updateArticleCount
        storedCount_categories [of "_\<lparr>articles := _\<rparr>"])
  have f1: "findById s1 articleId = Some a1"
    unfolding s1_def using assms(1,2,4)
    by (simp add: ArticleService_delete_found Let_def findById_def a1_def)
  define a2 where "a2 = a1\<lparr>status := draft, updatedAt := t2, version := version a1 + 1\<rparr>"
  define s2 where "s2 = snd (ArticleService_restore s1 t2 v2 articleId u2)"
  have p2: "hasPermission u2 article_restore_all
           \<or> hasPermission u2 article_restore_own \<and> authorId a1 = uid u2"
    using assms(5) by (simp add: a1_def)
  have st1: "status a1 = deleted" by (simp add: a1_def)
  have r: "ArticleService_restore s1 t2 v2 articleId u2 = (Inr a2, s2)"
    using f1 st1 p2 by (simp add: ArticleService_restore_found Let_def a2_def s2_def)
  have cat1: "category a1 = category a" by (simp add: a1_def)
  have c2: "storedCount s2 (category a) = Some (max 0 (n - 1) + 1)"
    unfolding s2_def using f1 st1 p2 c1 cat1
    by (simp add: ArticleService_restore_found Let_def
        storedCount_categories [of "snd (createVersion _ _ _ _ _ _ _)"]
        storedCount_updateArticleCount
        storedCount_categories [of "_\<lparr>articles := _\<rparr>"])
  have "status a2 = draft" by (simp add: a2_def)
  with d st1 c1 r c2 show ?thesis by (intro exI [of _ a1] exI [of _ s1] exI [of _ a2] exI [of _ s2]) auto
qed

lemma stateA1_facts:
  "findById (stateA1 st n) ''a1'' = Some (articleA1 st)"
  "aid (articleA1 st) = ''a1''"
  "status (articleA1 st) = st"
  "authorId (articleA1 st) = uid alice"
  "category (articleA1 st) = ''Security''"
  "version (articleA1 st) = 1"
  "storedCount (stateA1 st n) ''Security'' = Some n"
  by (simp_all add: findById_def stateA1_def articleA1_def alice_def storedCount_def
      findCategory_def securityCategory_def)

lemma alice_permissions:
  "hasPermission alice article_delete_own" "hasPermission alice article_restore_own"
  "hasPermission alice article_edit_own" "hasPermission alice article_publish_own"
  "hasPermission alice article_create" "hasPermission alice article_version_restore_own"
  by (simp_all add: hasPermission_def alice_def)

text \<open>
  Claim C7, as the code has it. For an article stored under its own id whose status is
  not deleted, a caller who may delete it, a caller who may restore it, and a category of
  the article's name with stored count \<open>n\<close>: the soft delete succeeds, sets status
  deleted and stores \<open>max 0 (n - 1)\<close>; the restore that follows succeeds, sets status
  draft and stores that count plus one. When \<open>n\<close> is at least 1 the delete decrements
  the count by one and the round trip gives \<open>n\<close> back.
\<close>

theorem delete_restore_roundtrip:
  assumes "findById s articleId = Some a" and "aid a = articleId" and "status a \<noteq> deleted"
    and "hasPermission u1 article_delete_all
           \<or> hasPermission u1 article_delete_own \<and> authorId a = uid u1"
    and "hasPermission u2 article_restore_all
           \<or> hasPermission u2 article_restore_own \<and> authorId a = uid u2"
    and "storedCount s (category a) = Some n"
  shows "\<exists>a1 s1 a2 s2.
      ArticleService_delete s t1 v1 articleId u1 = (Inr a1, s1)
      \<and> status a1 = deleted
      \<and> storedCount s1 (category a) = Some (max 0 (n - 1))
      \<and> ArticleService_restore s1 t2 v2 articleId u2 = (Inr a2, s2)
      \<and> status a2 = draft
      \<and> storedCount s2 (category a) = Some (max 0 (n - 1) + 1)
      \<and> (1 \<le> n \<longrightarrow> storedCount s1 (category a) = Some (n - 1)
                      \<and> storedCount s2 (category a) = Some n)"
  using assms by (rule delete_then_restore)

theorem delete_restore_roundtrip_witness:
  "findById (stateA1 draft 3) ''a1'' = Some (articleA1 draft)
   \<and> aid (articleA1 draft) = ''a1''
   \<and> status (articleA1 draft) \<noteq> deleted
   \<and> hasPermission alice article_delete_own \<and> hasPermission alice article_restore_own
   \<and> authorId (articleA1 draft) = uid alice
   \<and> storedCount (stateA1 draft 3) (category (articleA1 draft)) = Some 3
   \<and> resultStatus (fst (ArticleService_delete (stateA1 draft 3) 2000 ''v-2'' ''a1'' alice))
       = Some deleted
   \<and> storedCount (snd (ArticleService_delete (stateA1 draft 3) 2000 ''v-2'' ''a1'' alice))
        ''Security'' = Some 2
   \<and> resultStatus (fst (ArticleService_restore
        (snd (ArticleService_delete (stateA1 draft 3) 2000 ''v-2'' ''a1'' alice))
        3000 ''v-3'' ''a1'' alice)) = Some draft
   \<and> storedCount (snd (ArticleService_restore
        (snd (ArticleService_delete (stateA1 draft 3) 2000 ''v-2'' ''a1'' alice))
        3000 ''v-3'' ''a1'' alice)) ''Security'' = Some 3"
proof -
  have h3: "status (articleA1 draft) \<noteq> deleted" by (simp add: stateA1_facts)
  have h4: "hasPermission alice article_delete_all
      \<or> hasPermission alice article_delete_own \<and> authorId (articleA1 draft) = uid alice"
    by (simp add: stateA1_facts alice_permissions)
  have h5: "hasPermission alice article_restore_all
      \<or> hasPermission alice article_restore_own \<and> authorId (articleA1 draft) = uid alice"
    by (simp add: stateA1_facts alice_permissions)
  have h6: "storedCount (stateA1 draft 3) (category (articleA1 draft)) = Some 3"
    by (simp add: stateA1_facts)
  from delete_restore_roundtrip [OF stateA1_facts(1) stateA1_facts(2) h3 h4 h5 h6,
      of 2000 "''v-2''" 3000 "''v-3''"]
  show ?thesis
    by (auto simp: stateA1_facts alice_permissions resultStatus_def)
qed

text \<open>
  The claim as stated (for every article not deleted, the round trip leaves the count
  as it was) fails where the stored count is 0, as it is for a category created after
  the article: the delete leaves 0, clamped, and the restore stores 1.
\<close>

theorem delete_restore_roundtrip_counterexample:
  "status (articleA1 draft) \<noteq> deleted
   \<and> category (articleA1 draft) = ''Security''
   \<and> storedCount (stateA1 draft 0) ''Security'' = Some 0
   \<and> resultStatus (fst (ArticleService_delete (stateA1 draft 0) 2000 ''v-2'' ''a1'' alice))
       = Some deleted
   \<and> storedCount (snd (ArticleService_delete (stateA1 draft 0) 2000 ''v-2'' ''a1'' alice))
        ''Security'' = Some 0
   \<and> resultStatus (fst (ArticleService_restore
        (snd (ArticleService_delete (stateA1 draft 0) 2000 ''v-2'' ''a1'' alice))
        3000 ''v-3'' ''a1'' alice)) = Some draft
   \<and> storedCount (snd (ArticleService_restore
        (snd (ArticleService_delete (stateA1 draft 0) 2000 ''v-2'' ''a1'' alice))
        3000 ''v-3'' ''a1'' alice)) ''Security'' = Some 1
   \<and> storedCount (snd (ArticleService_restore
        (snd (ArticleService_delete (stateA1 draft 0) 2000 ''v-2'' ''a1'' alice))
        3000 ''v-3'' ''a1'' alice)) ''Security''
      \<noteq> storedCount (stateA1 draft 0) ''Security''"
proof -
  have h3: "status (articleA1 draft) \<noteq> deleted" by (simp add: stateA1_facts)
  have h4: "hasPermission alice article_delete_all
      \<or> hasPermission alice article_delete_own \<and> authorId (articleA1 draft) = uid alice"
    by (simp add: stateA1_facts alice_permissions)
  have h5: "hasPermission alice article_restore_all
      \<or> hasPermission alice article_restore_own \<and> authorId (articleA1 draft) = uid alice"
    by (simp add: stateA1_facts alice_permissions)
  have h6: "storedCount (stateA1 draft 0) (category (articleA1 draft)) = Some 0"
    by (simp add: stateA1_facts)
  from delete_then_restore [OF stateA1_facts(1) stateA1_facts(2) h3 h4 h5 h6,
      of 2000 "''v-2''" 3000 "''v-3''"]
  show ?thesis
    by (auto simp: stateA1_facts alice_permissions resultStatus_def)
qed

subsection \<open>The permission matrix\<close>

lemma reader_permissions:
  "role user = reader \<Longrightarrow> hasPermission user p \<longleftrightarrow>
     p \<in> {article_view_published, article_version_view, comment_view, search_basic}"
  by (auto simp: hasPermission_def)

lemma actor_permissions:
  "role user = actor \<Longrightarrow> hasPermission user p \<longleftrightarrow>
     p \<in> {article_view_published, article_version_view, comment_view, comment_create,
          comment_edit_own, comment_delete_own, search_basic}"
  by (auto simp: hasPermission_def)

lemma author_permissions:
  "role user = author \<Longrightarrow> hasPermission user p \<longleftrightarrow>
     p \<in> {article_view_published, article_view_draft_own, article_create, article_edit_own,
      article_delete_own, article_publish_own, article_restore_own, article_version_view,
      article_version_restore_own, comment_view, comment_create, comment_edit_own,
      comment_delete_own, search_basic, search_advanced}"
  by (auto simp: hasPermission_def)

lemma editor_permissions: "role user = editor \<Longrightarrow> hasPermission user p"
  by (cases p) (auto simp: hasPermission_def)

lemma reader_rejected:
  assumes "role user = reader"
  shows "ArticleService_create s now newId vid input user
           = (Inl (ForbiddenError ''You do not have permission to create articles''), s)"
    and "findById s articleId = Some a \<Longrightarrow>
         ArticleService_update s now vid articleId upd user reason
           = (Inl (ForbiddenError ''You do not have permission to edit this article''), s)"
    and "findById s articleId = Some a \<Longrightarrow>
         ArticleService_delete s now vid articleId user
           = (Inl (ForbiddenError ''You do not have permission to delete this article''), s)"
    and "CommentService_create s now newId articleId content user
           = (Inl (ForbiddenError ''You do not have permission to add comments''), s)"
  using assms
  by (simp_all add: ArticleService_create_def ArticleService_update_def
      ArticleService_delete_def CommentService_create_def reader_permissions Let_def)

lemma actor_comments:
  assumes "role user = actor"
  shows "ArticleService_create s now newId vid input user
           = (Inl (ForbiddenError ''You do not have permission to create articles''), s)"
    and "findById s articleId = Some a \<Longrightarrow> status a = published \<Longrightarrow>
         validateCommentInput content = [] \<Longrightarrow>
         \<exists>c s'. CommentService_create s now newId articleId content user = (Inr c, s')
           \<and> commentFiles s' articleId = commentFiles s articleId @ [c]
           \<and> cm_authorId c = uid user \<and> cm_articleId c = articleId
           \<and> cm_content c = trim content"
  using assms
  by (simp_all add: ArticleService_create_def CommentService_create_def actor_permissions
      Let_def FileCommentRepository_create_def)

lemma author_not_own:
  assumes "role user = author" "findById s articleId = Some a" "authorId a \<noteq> uid user"
  shows "ArticleService_update s now vid articleId upd user reason
           = (Inl (ForbiddenError ''You do not have permission to edit this article''), s)"
    and "ArticleService_delete s now vid articleId user
           = (Inl (ForbiddenError ''You do not have permission to delete this article''), s)"
    and "publish s now vid articleId user =
           (if status a \<noteq> draft
            then (Inl (BadRequestError ''Only draft articles can be published''), s)
            else (Inl (ForbiddenError ''You do not have permission to publish this article''), s))"
    and "ArticleService_restore s now vid articleId user =
           (if status a \<noteq> deleted
            then (Inl (BadRequestError ''Article is not in trash''), s)
            else (Inl (ForbiddenError ''You do not have permission to restore this article''), s))"
  using assms
  by (simp_all add: ArticleService_update_def ArticleService_delete_def publish_def
      ArticleService_restore_def author_permissions Let_def)

lemma getLockStatus_keeps [simp]:
  "articles (snd (getLockStatus s now i u)) = articles s"
  "categories (snd (getLockStatus s now i u)) = categories s"
  "versionFiles (snd (getLockStatus s now i u)) = versionFiles s"
  by (simp_all add: getLockStatus_def deleteLock_def Let_def split: option.splits)

lemma findById_getLockStatus [simp]:
  "findById (snd (getLockStatus s now i u)) j = findById s j"
  by (simp add: findById_def)

lemma update_not_forbidden:
  assumes "findById s articleId = Some a"
    "hasPermission user article_edit_all
       \<or> hasPermission user article_edit_own \<and> authorId a = uid user"
  shows "\<not> forbidden (ArticleService_update s now vid articleId upd user reason)"
  using assms
  by (auto simp: ArticleService_update_def Let_def forbidden_def case_prod_beta
      FileArticleRepository_update_found)

lemma delete_succeeds:
  assumes "findById s articleId = Some a"
    "hasPermission user article_delete_all
       \<or> hasPermission user article_delete_own \<and> authorId a = uid user"
  shows "succeeded (ArticleService_delete s now vid articleId user)"
  using assms by (simp add: ArticleService_delete_found Let_def succeeded_def)

lemma publish_succeeds:
  assumes "findById s articleId = Some a" "status a = draft"
    "hasPermission user article_publish_all
       \<or> hasPermission user article_publish_own \<and> authorId a = uid user"
  shows "succeeded (publish s now vid articleId user)"
  using publish_draft [OF assms, of now vid] by (auto simp: succeeded_def)

lemma restore_succeeds:
  assumes "findById s articleId = Some a" "status a = deleted"
    "hasPermission user article_restore_all
       \<or> hasPermission user article_restore_own \<and> authorId a = uid user"
  shows "succeeded (ArticleService_restore s now vid articleId user)"
  using assms by (simp add: ArticleService_restore_found Let_def succeeded_def)

lemma releaseLock_of_other:
  assumes "exists s articleId" "lockFiles s articleId = Some lk" "\<not> expiresAt lk < now"
    "l_lockedBy lk \<noteq> uid user" "l_lockedBy lk \<noteq> []"
  shows "LockService_releaseLock s now articleId user =
     (if hasPermission user article_edit_all
      then (Inr True, clearArticleLockInfo (deleteLock s articleId) articleId)
      else (Inl (ForbiddenError ''You cannot release a lock held by another user''), s))"
  using assms
  by (simp add: LockService_releaseLock_def getLockStatus_def loadLock_def isExpired_def
      Let_def releaseLock_def orElse_def)

lemma lockFiles_clearArticleLockInfo [simp]:
  "lockFiles (clearArticleLockInfo s i) = lockFiles s"
  by (simp add: clearArticleLockInfo_def split: option.splits)

text \<open>
  The permission checks of the services, role by role. A reader's create, and comment,
  and a reader's update or delete of an existing article, are rejected with the forbidden
  error and change nothing. An actor's create is rejected as forbidden; an actor's
  comment of valid content on a published article is stored. For an author, the update
  and the delete that address another author's article are forbidden, the publish and
  the restore of it never succeed (they are forbidden when the status would allow them),
  and so is the release of another user's live lock; on an own article the update is
  never forbidden, the delete succeeds, the publish of a draft and the restore of a
  deleted article succeed. An editor has all of that on any article, and the release of
  a live lock held by another user (of a non-empty user id) returns true and removes the
  lock.
\<close>

lemma service_permission_checks:
  "(role user = reader \<longrightarrow>
      ArticleService_create s now newId vid input user
        = (Inl (ForbiddenError ''You do not have permission to create articles''), s)
      \<and> CommentService_create s now newId articleId content user
        = (Inl (ForbiddenError ''You do not have permission to add comments''), s)
      \<and> (\<forall>a. findById s articleId = Some a \<longrightarrow>
            ArticleService_update s now vid articleId upd user reason
              = (Inl (ForbiddenError ''You do not have permission to edit this article''), s)
            \<and> ArticleService_delete s now vid articleId user
              = (Inl (ForbiddenError ''You do not have permission to delete this article''), s)))
   \<and> (role user = actor \<longrightarrow>
      ArticleService_create s now newId vid input user
        = (Inl (ForbiddenError ''You do not have permission to create articles''), s)
      \<and> (\<forall>a. findById s articleId = Some a \<and> status a = published
              \<and> validateCommentInput content = [] \<longrightarrow>
            (\<exists>c s'. CommentService_create s now newId articleId content user = (Inr c, s')
               \<and> commentFiles s' articleId = commentFiles s articleId @ [c]
               \<and> cm_authorId c = uid user \<and> cm_articleId c = articleId
               \<and> cm_content c = trim content)))
   \<and> (role user = author \<longrightarrow>
      (\<forall>a. findById s articleId = Some a \<and> authorId a \<noteq> uid user \<longrightarrow>
            ArticleService_update s now vid articleId upd user reason
              = (Inl (ForbiddenError ''You do not have permission to edit this article''), s)
            \<and> ArticleService_delete s now vid articleId user
              = (Inl (ForbiddenError ''You do not have permission to delete this article''), s)
            \<and> \<not> succeeded (publish s now vid articleId user)
            \<and> (status a = draft \<longrightarrow> forbidden (publish s now vid articleId user))
            \<and> \<not> succeeded (ArticleService_restore s now vid articleId user)
            \<and> (status a = deleted \<longrightarrow>
                 forbidden (ArticleService_restore s now vid articleId user))
            \<and> (\<forall>lk. lockFiles s articleId = Some lk \<and> \<not> expiresAt lk < now
                   \<and> l_lockedBy lk \<noteq> uid user \<and> l_lockedBy lk \<noteq> [] \<longrightarrow>
                 LockService_releaseLock s now articleId user
                   = (Inl (ForbiddenError ''You cannot release a lock held by another user''),
                      s)))
      \<and> (\<forall>a. findById s articleId = Some a \<and> authorId a = uid user \<longrightarrow>
            \<not> forbidden (ArticleService_update s now vid articleId upd user reason)
            \<and> succeeded (ArticleService_delete s now vid articleId user)
            \<and> (status a = draft \<longrightarrow> succeeded (publish s now vid articleId user))
            \<and> (status a = deleted \<longrightarrow>
                 succeeded (ArticleService_restore s now vid articleId user))))
   \<and> (role user = editor \<longrightarrow>
      (\<forall>a. findById s articleId = Some a \<longrightarrow>
            \<not> forbidden (ArticleService_update s now vid articleId upd user reason)
            \<and> succeeded (ArticleService_delete s now vid articleId user)
            \<and> (status a = draft \<longrightarrow> succeeded (publish s now vid articleId user))
            \<and> (status a = deleted \<longrightarrow>
                 succeeded (ArticleService_restore s now vid articleId user))
            \<and> (\<forall>lk. lockFiles s articleId = Some lk \<and> \<not> expiresAt lk < now
                   \<and> l_lockedBy lk \<noteq> uid user \<and> l_lockedBy lk \<noteq> [] \<longrightarrow>
                 (\<exists>s'. LockService_releaseLock s now articleId user = (Inr True, s')
                    \<and> lockFiles s' articleId = None))))"
proof (intro conjI)
  show "role user = reader \<longrightarrow>
      ArticleService_create s now newId vid input user
        = (Inl (ForbiddenError ''You do not have permission to create articles''), s)
      \<and> CommentService_create s now newId articleId content user
        = (Inl (ForbiddenError ''You do not have permission to add comments''), s)
      \<and> (\<forall>a. findById s articleId = Some a \<longrightarrow>
            ArticleService_update s now vid articleId upd user reason
              = (Inl (ForbiddenError ''You do not have permission to edit this article''), s)
            \<and> ArticleService_delete s now vid articleId user
              = (Inl (ForbiddenError ''You do not have permission to delete this article''), s))"
    by (simp add: reader_rejected)
next
  show "role user = actor \<longrightarrow>
      ArticleService_create s now newId vid input user
        = (Inl (ForbiddenError ''You do not have permission to create articles''), s)
      \<and> (\<forall>a. findById s articleId = Some a \<and> status a = published
              \<and> validateCommentInput content = [] \<longrightarrow>
            (\<exists>c s'. CommentService_create s now newId articleId content user = (Inr c, s')
               \<and> commentFiles s' articleId = commentFiles s articleId @ [c]
               \<and> cm_authorId c = uid user \<and> cm_articleId c = articleId
               \<and> cm_content c = trim content))"
  proof (intro impI conjI allI)
    assume r: "role user = actor"
    then show "ArticleService_create s now newId vid input user
        = (Inl (ForbiddenError ''You do not have permission to create articles''), s)"
      by (rule actor_comments(1))
    fix a
    assume "findById s articleId = Some a \<and> status a = published
              \<and> validateCommentInput content = []"
    then have "findById s articleId = Some a" "status a = published"
      "validateCommentInput content = []"
      by simp_all
    with r show "\<exists>c s'. CommentService_create s now newId articleId content user = (Inr c, s')
               \<and> commentFiles s' articleId = commentFiles s articleId @ [c]
               \<and> cm_authorId c = uid user \<and> cm_articleId c = articleId
               \<and> cm_content c = trim content"
      by (rule actor_comments(2))
  qed
next
  show "role user = author \<longrightarrow>
      (\<forall>a. findById s articleId = Some a \<and> authorId a \<noteq> uid user \<longrightarrow>
            ArticleService_update s now vid articleId upd user reason
              = (Inl (ForbiddenError ''You do not have permission to edit this article''), s)
            \<and> ArticleService_delete s now vid articleId user
              = (Inl (ForbiddenError ''You do not have permission to delete this article''), s)
            \<and> \<not> succeeded (publish s now vid articleId user)
            \<and> (status a = draft \<longrightarrow> forbidden (publish s now vid articleId user))
            \<and> \<not> succeeded (ArticleService_restore s now vid articleId user)
            \<and> (status a = deleted \<longrightarrow>
                 forbidden (ArticleService_restore s now vid articleId user))
            \<and> (\<forall>lk. lockFiles s articleId = Some lk \<and> \<not> expiresAt lk < now
                   \<and> l_lockedBy lk \<noteq> uid user \<and> l_lockedBy lk \<noteq> [] \<longrightarrow>
                 LockService_releaseLock s now articleId user
                   = (Inl (ForbiddenError ''You cannot release a lock held by another user''),
                      s)))
      \<and> (\<forall>a. findById s articleId = Some a \<and> authorId a = uid user \<longrightarrow>
            \<not> forbidden (ArticleService_update s now vid articleId upd user reason)
            \<and> succeeded (ArticleService_delete s now vid articleId user)
            \<and> (status a = draft \<longrightarrow> succeeded (publish s now vid articleId user))
            \<and> (status a = deleted \<longrightarrow>
                 succeeded (ArticleService_restore s now vid articleId user)))"
  proof (intro impI conjI allI)
    fix a
    assume r: "role user = author"
      and h: "findById s articleId = Some a \<and> authorId a \<noteq> uid user"
    note no = author_not_own [OF r, of s articleId a now vid]
    from h show "ArticleService_update s now vid articleId upd user reason
              = (Inl (ForbiddenError ''You do not have permission to edit this article''), s)"
      by (simp add: no)
    from h show "ArticleService_delete s now vid articleId user
              = (Inl (ForbiddenError ''You do not have permission to delete this article''), s)"
      by (simp add: no)
    from h show "\<not> succeeded (publish s now vid articleId user)"
      by (simp add: no succeeded_def)
    from h show "\<not> succeeded (ArticleService_restore s now vid articleId user)"
      by (simp add: no succeeded_def)
    { assume "status a = draft"
      with h show "forbidden (publish s now vid articleId user)"
        by (simp add: no forbidden_def) }
    { assume "status a = deleted"
      with h show "forbidden (ArticleService_restore s now vid articleId user)"
        by (simp add: no forbidden_def) }
    { fix lk
      assume l: "lockFiles s articleId = Some lk \<and> \<not> expiresAt lk < now
                   \<and> l_lockedBy lk \<noteq> uid user \<and> l_lockedBy lk \<noteq> []"
      from h have "exists s articleId" by (simp add: exists_def)
      with l r show "LockService_releaseLock s now articleId user
                   = (Inl (ForbiddenError ''You cannot release a lock held by another user''),
                      s)"
        by (simp add: releaseLock_of_other author_permissions) }
  next
    fix a
    assume r: "role user = author"
      and h: "findById s articleId = Some a \<and> authorId a = uid user"
    from r have p: "hasPermission user article_edit_own" "hasPermission user article_delete_own"
      "hasPermission user article_publish_own" "hasPermission user article_restore_own"
      by (simp_all add: author_permissions)
    from h p show "\<not> forbidden (ArticleService_update s now vid articleId upd user reason)"
      by (simp add: update_not_forbidden)
    from h p show "succeeded (ArticleService_delete s now vid articleId user)"
      by (simp add: delete_succeeds)
    { assume "status a = draft"
      with h p show "succeeded (publish s now vid articleId user)"
        by (simp add: publish_succeeds) }
    { assume "status a = deleted"
      with h p show "succeeded (ArticleService_restore s now vid articleId user)"
        by (simp add: restore_succeeds) }
  qed
next
  show "role user = editor \<longrightarrow>
      (\<forall>a. findById s articleId = Some a \<longrightarrow>
            \<not> forbidden (ArticleService_update s now vid articleId upd user reason)
            \<and> succeeded (ArticleService_delete s now vid articleId user)
            \<and> (status a = draft \<longrightarrow> succeeded (publish s now vid articleId user))
            \<and> (status a = deleted \<longrightarrow>
                 succeeded (ArticleService_restore s now vid articleId user))
            \<and> (\<forall>lk. lockFiles s articleId = Some lk \<and> \<not> expiresAt lk < now
                   \<and> l_lockedBy lk \<noteq> uid user \<and> l_lockedBy lk \<noteq> [] \<longrightarrow>
                 (\<exists>s'. LockService_releaseLock s now articleId user = (Inr True, s')
                    \<and> lockFiles s' articleId = None)))"
  proof (intro impI conjI allI)
    fix a
    assume r: "role user = editor" and h: "findById s articleId = Some a"
    note p = editor_permissions [OF r]
    from h p show "\<not> forbidden (ArticleService_update s now vid articleId upd user reason)"
      by (simp add: update_not_forbidden)
    from h p show "succeeded (ArticleService_delete s now vid articleId user)"
      by (simp add: delete_succeeds)
    { assume "status a = draft"
      with h p show "succeeded (publish s now vid articleId user)"
        by (simp add: publish_succeeds) }
    { assume "status a = deleted"
      with h p show "succeeded (ArticleService_restore s now vid articleId user)"
        by (simp add: restore_succeeds) }
    { fix lk
      assume l: "lockFiles s articleId = Some lk \<and> \<not> expiresAt lk < now
                   \<and> l_lockedBy lk \<noteq> uid user \<and> l_lockedBy lk \<noteq> []"
      from h have "exists s articleId" by (simp add: exists_def)
      with l p show "\<exists>s'. LockService_releaseLock s now articleId user = (Inr True, s')
                    \<and> lockFiles s' articleId = None"
        by (simp add: releaseLock_of_other deleteLock_def) }
  qed
qed

lemma validateCommentInput_thanks: "validateCommentInput ''Thanks'' = []"
  by (simp add: validateCommentInput_def trim_def isWhiteSpace_def CONTENT_MIN_LENGTH_def
      CONTENT_MAX_LENGTH_def)

lemma stateA1Locked_facts:
  "findById (stateA1Locked st t) ''a1''
     = Some ((articleA1 st)\<lparr>lockedBy := Some ''u-alice'', lockedByName := Some ''Alice'',
               lockedAt := Some t\<rparr>)"
  "lockFiles (stateA1Locked st t) ''a1'' = Some (aliceLock t)"
  "lockFiles (stateA1 st n) ''a1'' = None"
  "expiresAt (aliceLock t) = t + 1800000"
  "l_lockedBy (aliceLock t) = ''u-alice''"
  by (simp_all add: findById_def stateA1Locked_def stateA1_def aliceLock_def)

lemma service_permission_checks_example:
  "role rita = reader
   \<and> ArticleService_create emptyState 1000 ''a1'' ''v-1'' exampleInput rita
       = (Inl (ForbiddenError ''You do not have permission to create articles''), emptyState)
   \<and> findById (stateA1 draft 1) ''a1'' = Some (articleA1 draft)
   \<and> forbidden (ArticleService_update (stateA1 draft 1) 2000 ''v-2'' ''a1'' titleInput rita None)
   \<and> role carl = actor
   \<and> findById (stateA1 published 1) ''a1'' = Some (articleA1 published)
   \<and> status (articleA1 published) = published
   \<and> validateCommentInput ''Thanks'' = []
   \<and> succeeded (CommentService_create (stateA1 published 1) 2000 ''c-1'' ''a1'' ''Thanks'' carl)
   \<and> role bob = author
   \<and> authorId (articleA1 draft) \<noteq> uid bob
   \<and> forbidden (ArticleService_update (stateA1 draft 1) 2000 ''v-2'' ''a1'' titleInput bob None)
   \<and> role alice = author
   \<and> authorId (articleA1 draft) = uid alice
   \<and> succeeded (ArticleService_delete (stateA1 draft 1) 2000 ''v-2'' ''a1'' alice)
   \<and> role erin = editor
   \<and> lockFiles (stateA1Locked draft 1000) ''a1'' = Some (aliceLock 1000)
   \<and> l_lockedBy (aliceLock 1000) \<noteq> uid erin
   \<and> fst (LockService_releaseLock (stateA1Locked draft 1000) 2000 ''a1'' erin) = Inr True
   \<and> lockFiles (snd (LockService_releaseLock (stateA1Locked draft 1000) 2000 ''a1'' erin)) ''a1''
       = None"
proof -
  have roles: "role rita = reader" "role carl = actor" "role bob = author"
    "role alice = author" "role erin = editor"
    "uid bob = ''u-bob''" "uid erin = ''u-erin''"
    by (simp_all add: rita_def carl_def bob_def alice_def erin_def)
  note m_rita = service_permission_checks [where user = rita and s = "stateA1 draft 1" and now = 2000
      and newId = "''a2''" and vid = "''v-2''" and input = exampleInput
      and articleId = "''a1''" and content = "''Thanks''" and upd = titleInput
      and reason = None]
  note m_rita0 = service_permission_checks [where user = rita and s = "emptyState" and now = 1000
      and newId = "''a1''" and vid = "''v-1''" and input = exampleInput
      and articleId = "''a1''" and content = "''Thanks''" and upd = titleInput
      and reason = None]
  note m_carl = service_permission_checks [where user = carl and s = "stateA1 published 1" and now = 2000
      and newId = "''c-1''" and vid = "''v-2''" and input = exampleInput
      and articleId = "''a1''" and content = "''Thanks''" and upd = titleInput
      and reason = None]
  note m_bob = service_permission_checks [where user = bob and s = "stateA1 draft 1" and now = 2000
      and newId = "''a2''" and vid = "''v-2''" and input = exampleInput
      and articleId = "''a1''" and content = "''Thanks''" and upd = titleInput
      and reason = None]
  note m_alice = service_permission_checks [where user = alice and s = "stateA1 draft 1" and now = 2000
      and newId = "''a2''" and vid = "''v-2''" and input = exampleInput
      and articleId = "''a1''" and content = "''Thanks''" and upd = titleInput
      and reason = None]
  note m_erin = service_permission_checks [where user = erin and s = "stateA1Locked draft 1000" and now = 2000
      and newId = "''a2''" and vid = "''v-2''" and input = exampleInput
      and articleId = "''a1''" and content = "''Thanks''" and upd = titleInput
      and reason = None]
  have c1: "ArticleService_create emptyState 1000 ''a1'' ''v-1'' exampleInput rita
       = (Inl (ForbiddenError ''You do not have permission to create articles''), emptyState)"
    using m_rita0 roles by simp
  have c2: "forbidden (ArticleService_update (stateA1 draft 1) 2000 ''v-2'' ''a1'' titleInput rita None)"
    using m_rita roles by (simp add: stateA1_facts forbidden_def)
  have c3: "succeeded (CommentService_create (stateA1 published 1) 2000 ''c-1'' ''a1'' ''Thanks'' carl)"
    using m_carl roles
    by (auto simp: stateA1_facts validateCommentInput_thanks succeeded_def)
  have c4: "forbidden (ArticleService_update (stateA1 draft 1) 2000 ''v-2'' ''a1'' titleInput bob None)"
    using m_bob roles by (simp add: stateA1_facts forbidden_def alice_def)
  have c5: "succeeded (ArticleService_delete (stateA1 draft 1) 2000 ''v-2'' ''a1'' alice)"
    using m_alice roles by (simp add: stateA1_facts)
  have c6: "fst (LockService_releaseLock (stateA1Locked draft 1000) 2000 ''a1'' erin) = Inr True
     \<and> lockFiles (snd (LockService_releaseLock (stateA1Locked draft 1000) 2000 ''a1'' erin)) ''a1''
       = None"
    using m_erin roles by (auto simp: stateA1Locked_facts)
  show ?thesis
    using c1 c2 c3 c4 c5 c6 roles
    by (simp add: stateA1_facts stateA1Locked_facts validateCommentInput_thanks alice_def)
qed

lemma stateA1B1_facts:
  "findById stateA1B1 ''a1'' = Some (articleA1 draft)"
  "findById stateA1B1 ''b1'' = Some articleB1"
  "lockFiles stateA1B1 ''a1'' = None"
  "authorId articleB1 = ''u-bob''"
  "uid alice = ''u-alice''"
  "role alice = author"
  by (simp_all add: findById_def stateA1B1_def articleB1_def alice_def)

lemma validateArticleInput_idTitleInput:
  "TITLE_MIN_LENGTH \<le> length t \<Longrightarrow> length t \<le> TITLE_MAX_LENGTH \<Longrightarrow>
   validateArticleInput (idTitleInput j t) False = []"
  by (auto simp: validateArticleInput_def idTitleInput_def noInput_def orEmpty_def
      TITLE_MIN_LENGTH_def)

lemma spreadInput_idTitleInput:
  "spreadInput a (idTitleInput j t) = a\<lparr>aid := j, briefTitle := t\<rparr>"
  by (simp add: spreadInput_def idTitleInput_def noInput_def)

text \<open>
  Claim C8, where the code departs from it. An author \<open>user\<close> owns the article stored at
  \<open>i\<close>, which no lock covers; another author's article \<open>b\<close> is stored at \<open>j\<close>. An update
  that addresses \<open>j\<close> is rejected with the forbidden error and changes nothing, whatever
  its input. The update that addresses the own article \<open>i\<close> with the body
  \<open>{"id": j, "briefTitle": t}\<close>, \<open>t\<close> a title of valid length, passes the permission check
  and succeeds: the repository spreads the body over the article, the copy takes the id
  \<open>j\<close> and is saved under it. The record then stored at \<open>j\<close> is the author's own article
  with the title \<open>t\<close> and the next version number, not \<open>b\<close>; the article at \<open>i\<close> is as
  it was.
\<close>

theorem update_id_key_overwrites_other:
  assumes "role user = author" "findById s i = Some a" "authorId a = uid user"
    and "findById s j = Some b" "authorId b \<noteq> uid user"
    and "lockFiles s i = None"
    and "TITLE_MIN_LENGTH \<le> length t" "length t \<le> TITLE_MAX_LENGTH"
  shows "ArticleService_update s now vid j upd user reason
           = (Inl (ForbiddenError ''You do not have permission to edit this article''), s)
         \<and> (\<exists>s'. ArticleService_update s now vid i (idTitleInput j t) user reason
                  = (Inr (a\<lparr>aid := j, briefTitle := t, updatedAt := now,
                           version := version a + 1\<rparr>), s')
              \<and> findById s' j = Some (a\<lparr>aid := j, briefTitle := t, updatedAt := now,
                                        version := version a + 1\<rparr>)
              \<and> findById s' j \<noteq> Some b
              \<and> findById s' i = Some a)"
proof
  show "ArticleService_update s now vid j upd user reason
           = (Inl (ForbiddenError ''You do not have permission to edit this article''), s)"
    using assms(1,4,5) by (rule author_not_own(1))
next
  let ?a' = "a\<lparr>aid := j, briefTitle := t, updatedAt := now, version := version a + 1\<rparr>"
  from assms(1) have p: "hasPermission user article_edit_own"
    by (simp add: author_permissions)
  from assms(3,5) have ne: "?a' \<noteq> b" by auto
  from assms(2,3,4,5) have ij: "i \<noteq> j" by auto
  have v: "validateArticleInput (idTitleInput j t) False = []"
    using assms(7,8) by (rule validateArticleInput_idTitleInput)
  have c: "u_category (idTitleInput j t) = None" "u_status (idTitleInput j t) = None"
    by (simp_all add: idTitleInput_def noInput_def)
  have l: "getLockStatus s now i (uid user)
      = (\<lparr> isLocked = False, ls_lock = None, canEdit = True, ls_message = None \<rparr>, s)"
    using assms(6) by (simp add: getLockStatus_def loadLock_def)
  have r: "ArticleService_update s now vid i (idTitleInput j t) user reason
      = (Inr ?a', snd (createVersion (s\<lparr>articles := (articles s)(j \<mapsto> ?a')\<rparr>) now vid ?a'
                         (uid user) (displayName user) reason))"
    using assms(2,3) p
    by (simp add: ArticleService_update_def Let_def l v c orEmpty_def case_prod_beta
        FileArticleRepository_update_found spreadInput_idTitleInput)
  show "\<exists>s'. ArticleService_update s now vid i (idTitleInput j t) user reason = (Inr ?a', s')
      \<and> findById s' j = Some ?a' \<and> findById s' j \<noteq> Some b \<and> findById s' i = Some a"
    using r ne ij assms(2) by (simp add: findById_def)
qed

theorem update_id_key_overwrites_other_witness:
  "role alice = author
   \<and> findById stateA1B1 ''a1'' = Some (articleA1 draft)
   \<and> authorId (articleA1 draft) = uid alice
   \<and> findById stateA1B1 ''b1'' = Some articleB1
   \<and> authorId articleB1 = ''u-bob'' \<and> uid alice = ''u-alice''
   \<and> lockFiles stateA1B1 ''a1'' = None
   \<and> ArticleService_update stateA1B1 2000 ''v-2'' ''b1'' (idTitleInput ''b1'' ''Owned by Alice'')
         alice None
       = (Inl (ForbiddenError ''You do not have permission to edit this article''), stateA1B1)
   \<and> succeeded (ArticleService_update stateA1B1 2000 ''v-2'' ''a1''
         (idTitleInput ''b1'' ''Owned by Alice'') alice None)
   \<and> map_option authorId
        (findById (snd (ArticleService_update stateA1B1 2000 ''v-2'' ''a1''
           (idTitleInput ''b1'' ''Owned by Alice'') alice None)) ''b1'') = Some ''u-alice''
   \<and> map_option briefTitle
        (findById (snd (ArticleService_update stateA1B1 2000 ''v-2'' ''a1''
           (idTitleInput ''b1'' ''Owned by Alice'') alice None)) ''b1'') = Some ''Owned by Alice''
   \<and> map_option version
        (findById (snd (ArticleService_update stateA1B1 2000 ''v-2'' ''a1''
           (idTitleInput ''b1'' ''Owned by Alice'') alice None)) ''b1'') = Some 2
   \<and> findById (snd (ArticleService_update stateA1B1 2000 ''v-2'' ''a1''
        (idTitleInput ''b1'' ''Owned by Alice'') alice None)) ''a1'' = Some (articleA1 draft)"
proof -
  have len: "TITLE_MIN_LENGTH \<le> length ''Owned by Alice''"
    "length ''Owned by Alice'' \<le> TITLE_MAX_LENGTH"
    by (simp_all add: TITLE_MIN_LENGTH_def TITLE_MAX_LENGTH_def)
  have other: "authorId articleB1 \<noteq> uid alice"
    by (simp add: stateA1B1_facts)
  note t = update_id_key_overwrites_other [where user = alice and s = stateA1B1
      and i = "''a1''" and a = "articleA1 draft" and j = "''b1''" and b = articleB1
      and t = "''Owned by Alice''" and now = 2000 and vid = "''v-2''" and reason = None
      and upd = "idTitleInput ''b1'' ''Owned by Alice''",
      OF stateA1B1_facts(6) stateA1B1_facts(1) stateA1_facts(4) stateA1B1_facts(2) other
        stateA1B1_facts(3) len]
  from t obtain s' where
    r: "ArticleService_update stateA1B1 2000 ''v-2'' ''a1''
          (idTitleInput ''b1'' ''Owned by Alice'') alice None
        = (Inr ((articleA1 draft)\<lparr>aid := ''b1'', briefTitle := ''Owned by Alice'',
                  updatedAt := 2000, version := version (articleA1 draft) + 1\<rparr>), s')"
    and f: "findById s' ''b1''
        = Some ((articleA1 draft)\<lparr>aid := ''b1'', briefTitle := ''Owned by Alice'',
                  updatedAt := 2000, version := version (articleA1 draft) + 1\<rparr>)"
    and g: "findById s' ''a1'' = Some (articleA1 draft)"
    by blast
  from t have d: "ArticleService_update stateA1B1 2000 ''v-2'' ''b1''
         (idTitleInput ''b1'' ''Owned by Alice'') alice None
       = (Inl (ForbiddenError ''You do not have permission to edit this article''), stateA1B1)"
    by (rule conjunct1)
  show ?thesis
    using d f g
    by (simp add: r succeeded_def stateA1B1_facts stateA1_facts articleA1_def)
qed

subsection \<open>The version counter and the version records\<close>

lemma consistent_stored:
  assumes "versionsConsistent s" "findById s i = Some a"
  shows "aid a = i" and "dom (versionFiles s i) = {1..version a}"
proof -
  from assms(1) have "case articles s i of None \<Rightarrow> versionFiles s i = Map.empty
      | Some a \<Rightarrow> aid a = i \<and> dom (versionFiles s i) = {1..version a}"
    unfolding versionsConsistent_def by (rule spec)
  with assms(2) show "aid a = i" and "dom (versionFiles s i) = {1..version a}"
    by (simp_all add: findById_def)
qed

lemma consistent_count:
  "versionsConsistent s \<Longrightarrow> findById s i = Some a \<Longrightarrow> versionCount s i = version a"
  by (simp add: versionCount_def consistent_stored(2))

lemma snapshotAdded_consistent:
  assumes c: "versionsConsistent s" and f: "findById s i = Some a"
    and b: "snapshotAdded s s' a a' v"
  shows "versionsConsistent s'"
    and "findById s' i = Some a'"
    and "versionCount s' i = versionCount s i + 1"
    and "getVersion s' i (version a + 1) = Some v"
proof -
  from c f have i: "aid a = i" by (rule consistent_stored(1))
  from c f have d: "dom (versionFiles s i) = {1..version a}"
    by (rule consistent_stored(2))
  have "{1..Suc (version a)} = insert (Suc (version a)) {1..version a}"
    by auto
  with b i d have d': "dom (versionFiles s' i) = {1..version a'}"
    by (simp add: snapshotAdded_def)
  show "versionsConsistent s'"
    unfolding versionsConsistent_def
  proof
    fix j
    show "case articles s' j of None \<Rightarrow> versionFiles s' j = Map.empty
          | Some a \<Rightarrow> aid a = j \<and> dom (versionFiles s' j) = {1..version a}"
    proof (cases "j = i")
      case True
      with b i d' show ?thesis by (simp add: snapshotAdded_def)
    next
      case False
      with c b i show ?thesis
        by (auto simp: snapshotAdded_def versionsConsistent_def dest!: spec [of _ j]
            split: option.splits)
    qed
  qed
  from b i show "findById s' i = Some a'" by (simp add: snapshotAdded_def findById_def)
  from b i d d' show "versionCount s' i = versionCount s i + 1"
    by (simp add: versionCount_def snapshotAdded_def)
  from b i show "getVersion s' i (version a + 1) = Some v"
    by (simp add: snapshotAdded_def getVersion_def)
qed


lemma versionFiles_createVersion:
  "versionFiles (snd (createVersion s t vid a byId byName reason)) =
     (versionFiles s)(aid a := (versionFiles s (aid a))(version a \<mapsto>
        createVersionFromArticle a byId byName reason t vid))"
  by (simp add: createVersion_def Let_def)

lemma update_then_snapshot:
  assumes "findById s1 i = Some a" "articles s1 = articles s" "versionFiles s1 = versionFiles s"
    "FileArticleRepository_update s1 t i input = Inr (a', s2)"
    "categories s3 = cs" "articles s3 = articles s2" "versionFiles s3 = versionFiles s2"
    "u_id input = None"
  shows "snapshotAdded s (snd (createVersion s3 t vid a' byId byName reason)) a a'
           (createVersionFromArticle a' byId byName reason t vid)"
  using assms
  by (auto simp: FileArticleRepository_update_found snapshotAdded_def
      versionFiles_createVersion spreadInput_def)

lemma snapshotAdded_frame:
  "snapshotAdded s s1 a a' v \<Longrightarrow> articles s2 = articles s1 \<Longrightarrow>
   versionFiles s2 = versionFiles s1 \<Longrightarrow> snapshotAdded s s2 a a' v"
  by (simp add: snapshotAdded_def)

lemma u_id_status_only [simp]: "u_id (noInput\<lparr>u_status := x\<rparr>) = None"
  by (simp add: noInput_def)

lemma update_outcome:
  assumes "u_id upd = None" "succeeded (ArticleService_update s now vid i upd user reason)"
  shows "\<exists>a a' v. findById s i = Some a
         \<and> snapshotAdded s (snd (ArticleService_update s now vid i upd user reason)) a a' v"
proof (cases "findById s i")
  case None
  with assms(2) show ?thesis by (simp add: ArticleService_update_def succeeded_def)
next
  case (Some a)
  let ?s1 = "snd (getLockStatus s now i (uid user))"
  have f1: "findById ?s1 i = Some a" using Some by simp
  obtain a' s2 where u: "FileArticleRepository_update ?s1 now i upd = Inr (a', s2)"
    using f1 by (simp add: FileArticleRepository_update_found)
  let ?s3 = "snd (createVersion s2 now vid a' (uid user) (displayName user) reason)"
  have added: "snapshotAdded s ?s3 a a'
       (createVersionFromArticle a' (uid user) (displayName user) reason now vid)"
    using update_then_snapshot [OF f1 _ _ u refl refl refl assms(1)] by simp
  have added2: "snapshotAdded s
       (updateArticleCount (updateArticleCount ?s3 (category a) (- 1))
          (orEmpty (u_category upd)) 1) a a'
       (createVersionFromArticle a' (uid user) (displayName user) reason now vid)"
    by (rule snapshotAdded_frame [OF added]) simp_all
  show ?thesis
    using Some u added added2 assms(2)
    by (auto simp: ArticleService_update_def Let_def case_prod_beta succeeded_def
        split: if_splits)
qed

lemma publish_outcome:
  "(succeeded (publish s now vid i user) \<longrightarrow>
      (\<exists>a a' v. findById s i = Some a \<and> snapshotAdded s (snd (publish s now vid i user)) a a' v))
   \<and> (\<not> succeeded (publish s now vid i user) \<longrightarrow>
      articles (snd (publish s now vid i user)) = articles s
      \<and> versionFiles (snd (publish s now vid i user)) = versionFiles s)"
proof (cases "findById s i")
  case None
  then show ?thesis by (simp add: publish_def succeeded_def)
next
  case (Some a)
  obtain a' s2 where u: "FileArticleRepository_update s now i
      (noInput\<lparr>u_status := Some published\<rparr>) = Inr (a', s2)"
    using Some by (simp add: FileArticleRepository_update_found)
  from update_then_snapshot [OF Some refl refl u refl refl refl u_id_status_only,
      where vid = vid and byId = "uid user" and byName = "displayName user"
      and reason = "Some ''Published''"]
  show ?thesis
    using Some u by (auto simp: publish_def Let_def case_prod_beta succeeded_def)
qed

lemma archive_outcome:
  "(succeeded (archive s now vid i user) \<longrightarrow>
      (\<exists>a a' v. findById s i = Some a \<and> snapshotAdded s (snd (archive s now vid i user)) a a' v))
   \<and> (\<not> succeeded (archive s now vid i user) \<longrightarrow>
      articles (snd (archive s now vid i user)) = articles s
      \<and> versionFiles (snd (archive s now vid i user)) = versionFiles s)"
proof (cases "findById s i")
  case None
  then show ?thesis by (simp add: archive_def succeeded_def)
next
  case (Some a)
  obtain a' s2 where u: "FileArticleRepository_update s now i
      (noInput\<lparr>u_status := Some archived\<rparr>) = Inr (a', s2)"
    using Some by (simp add: FileArticleRepository_update_found)
  from update_then_snapshot [OF Some refl refl u refl refl refl u_id_status_only,
      where vid = vid and byId = "uid user" and byName = "displayName user"
      and reason = "Some ''Archived''"]
  show ?thesis
    using Some u by (auto simp: archive_def Let_def case_prod_beta succeeded_def)
qed

lemma restoreVersion_outcome:
  "(succeeded (restoreVersion s now vid i n user) \<longrightarrow>
      (\<exists>a a' v. findById s i = Some a
         \<and> snapshotAdded s (snd (restoreVersion s now vid i n user)) a a' v))
   \<and> (\<not> succeeded (restoreVersion s now vid i n user) \<longrightarrow>
      articles (snd (restoreVersion s now vid i n user)) = articles s
      \<and> versionFiles (snd (restoreVersion s now vid i n user)) = versionFiles s)"
proof (cases "findById s i")
  case None
  then show ?thesis by (simp add: restoreVersion_def succeeded_def)
next
  case (Some a)
  show ?thesis
  proof (cases "getVersion s i n")
    case None
    with Some show ?thesis by (simp add: restoreVersion_def succeeded_def Let_def)
  next
    case (Some w)
    obtain a' s2 where u: "FileArticleRepository_update s now i \<lparr>
            u_briefTitle = Some (v_briefTitle w),
            u_detailedDescription = Some (v_detailedDescription w),
            u_category = Some (v_category w),
            u_tags = Some (v_tags w),
            u_relatedArticles = Some (v_relatedArticles w),
            u_status = None,
            u_expirationDate = None,
            u_id = None, u_authorId = None, u_authorName = None,
            u_createdAt = None, u_lockedBy = None, u_lockedByName = None,
            u_lockedAt = None, u_metadata = None \<rparr> = Inr (a', s2)"
      using \<open>findById s i = Some a\<close> by (simp add: FileArticleRepository_update_found)
    from update_then_snapshot [OF \<open>findById s i = Some a\<close> refl refl u refl refl refl,
        where vid = vid and byId = "uid user" and byName = "displayName user"
        and reason = "Some (''Restored from version '' @ numberToString n)"]
    have "snapshotAdded s
        (snd (createVersion s2 now vid a' (uid user) (displayName user)
                (Some (''Restored from version '' @ numberToString n)))) a a'
        (createVersionFromArticle a' (uid user) (displayName user)
           (Some (''Restored from version '' @ numberToString n)) now vid)"
      by simp
    then
    show ?thesis
      using \<open>findById s i = Some a\<close> Some u
      by (auto simp: restoreVersion_def Let_def case_prod_beta succeeded_def)
  qed
qed

lemma delete_outcome:
  "(succeeded (ArticleService_delete s now vid i user) \<longrightarrow>
      (\<exists>a a' v. findById s i = Some a
         \<and> snapshotAdded s (snd (ArticleService_delete s now vid i user)) a a' v))
   \<and> (\<not> succeeded (ArticleService_delete s now vid i user) \<longrightarrow>
      articles (snd (ArticleService_delete s now vid i user)) = articles s
      \<and> versionFiles (snd (ArticleService_delete s now vid i user)) = versionFiles s)"
proof (cases "findById s i")
  case None
  then show ?thesis by (simp add: ArticleService_delete_def succeeded_def)
next
  case (Some a)
  show ?thesis
  proof (cases "hasPermission user article_delete_all
       \<or> hasPermission user article_delete_own \<and> authorId a = uid user")
    case False
    with Some show ?thesis
      by (auto simp: ArticleService_delete_def succeeded_def Let_def)
  next
    case True
    have "snapshotAdded s (snd (ArticleService_delete s now vid i user)) a
        (a\<lparr>status := deleted, updatedAt := now, version := version a + 1\<rparr>)
        (createVersionFromArticle
           (a\<lparr>status := deleted, updatedAt := now, version := version a + 1\<rparr>)
           (uid user) (displayName user) (Some ''Moved to trash'') now vid)"
      by (simp add: ArticleService_delete_found [OF Some True] Let_def snapshotAdded_def
          versionFiles_createVersion)
    with Some delete_succeeds [OF Some True, of now vid] show ?thesis by blast
  qed
qed

lemma restore_outcome:
  "(succeeded (ArticleService_restore s now vid i user) \<longrightarrow>
      (\<exists>a a' v. findById s i = Some a
         \<and> snapshotAdded s (snd (ArticleService_restore s now vid i user)) a a' v))
   \<and> (\<not> succeeded (ArticleService_restore s now vid i user) \<longrightarrow>
      articles (snd (ArticleService_restore s now vid i user)) = articles s
      \<and> versionFiles (snd (ArticleService_restore s now vid i user)) = versionFiles s)"
proof (cases "findById s i")
  case None
  then show ?thesis by (simp add: ArticleService_restore_def succeeded_def)
next
  case (Some a)
  show ?thesis
  proof (cases "status a = deleted \<and> (hasPermission user article_restore_all
       \<or> hasPermission user article_restore_own \<and> authorId a = uid user)")
    case False
    with Some show ?thesis
      by (auto simp: ArticleService_restore_def succeeded_def Let_def)
  next
    case True
    then have st: "status a = deleted" and p: "hasPermission user article_restore_all
       \<or> hasPermission user article_restore_own \<and> authorId a = uid user"
      by simp_all
    have "snapshotAdded s (snd (ArticleService_restore s now vid i user)) a
        (a\<lparr>status := draft, updatedAt := now, version := version a + 1\<rparr>)
        (createVersionFromArticle
           (a\<lparr>status := draft, updatedAt := now, version := version a + 1\<rparr>)
           (uid user) (displayName user) (Some ''Restored from trash'') now vid)"
      by (simp add: ArticleService_restore_found [OF Some st p] Let_def snapshotAdded_def
          versionFiles_createVersion)
    with Some restore_succeeds [OF Some st p, of now vid] show ?thesis by blast
  qed
qed

lemma mutate_outcome:
  assumes "mutate s now vid i user m = (True, s')" "keepsId m"
  shows "\<exists>a a' v. findById s i = Some a \<and> snapshotAdded s s' a a' v"
proof (cases m)
  case (Update upd reason)
  with assms update_outcome [of upd s now vid i user reason] show ?thesis
    by (auto simp: mutate_def Let_def keepsId_def)
next
  case Publish
  with assms publish_outcome [of s now vid i user] show ?thesis
    by (auto simp: mutate_def Let_def)
next
  case Archive
  with assms archive_outcome [of s now vid i user] show ?thesis
    by (auto simp: mutate_def Let_def)
next
  case SoftDelete
  with assms delete_outcome [of s now vid i user] show ?thesis
    by (auto simp: mutate_def Let_def)
next
  case RestoreFromTrash
  with assms restore_outcome [of s now vid i user] show ?thesis
    by (auto simp: mutate_def Let_def)
next
  case (RestoreToVersion n)
  with assms restoreVersion_outcome [of s now vid i n user] show ?thesis
    by (auto simp: mutate_def Let_def)
qed

lemma create_consistent:
  assumes c: "versionsConsistent s" and fresh: "findById s newId = None"
    and run: "ArticleService_create s now newId vid input user = (Inr a, s')"
  shows "versionsConsistent s'" and "version a = 1" and "findById s' newId = Some a"
    and "versionCount s' newId = 1"
    and "map_option v_version (getVersion s' newId 1) = Some 1"
proof -
  from c have "case articles s newId of None \<Rightarrow> versionFiles s newId = Map.empty
      | Some a \<Rightarrow> aid a = newId \<and> dom (versionFiles s newId) = {1..version a}"
    unfolding versionsConsistent_def by (rule spec)
  with fresh have e: "versionFiles s newId = Map.empty" by (simp add: findById_def)
  from run have a: "aid a = newId" "version a = 1"
    and ar: "articles s' = (articles s)(newId \<mapsto> a)"
    and vf: "versionFiles s' = (versionFiles s)(newId :=
        (versionFiles s newId)(1 \<mapsto> createVersionFromArticle a (uid user) (displayName user)
           (Some ''Initial creation'') now vid))"
    by (auto simp: ArticleService_create_def FileArticleRepository_create_def Let_def
        case_prod_beta versionFiles_createVersion split: if_splits)
  show "version a = 1" by (rule a(2))
  from ar show "findById s' newId = Some a" by (simp add: findById_def)
  from vf e show "versionCount s' newId = 1" by (simp add: versionCount_def)
  from vf show "map_option v_version (getVersion s' newId 1) = Some 1"
    by (simp add: getVersion_def a)
  show "versionsConsistent s'"
    unfolding versionsConsistent_def
  proof
    fix j
    from c have cj: "case articles s j of None \<Rightarrow> versionFiles s j = Map.empty
        | Some a \<Rightarrow> aid a = j \<and> dom (versionFiles s j) = {1..version a}"
      unfolding versionsConsistent_def by (rule spec)
    show "case articles s' j of None \<Rightarrow> versionFiles s' j = Map.empty
          | Some a \<Rightarrow> aid a = j \<and> dom (versionFiles s' j) = {1..version a}"
    proof (cases "j = newId")
      case True
      with ar vf e a show ?thesis by simp
    next
      case False
      with ar vf cj show ?thesis by (simp split: option.splits)
    qed
  qed
qed

lemma unchanged_consistent:
  assumes "versionsConsistent s" "versionFiles s' = versionFiles s"
    "\<And>j. case articles s j of None \<Rightarrow> articles s' j = None
          | Some a \<Rightarrow> (\<exists>a'. articles s' j = Some a' \<and> aid a' = aid a \<and> version a' = version a)"
  shows "versionsConsistent s'"
    and "versionCount s' j = versionCount s j"
    and "map_option version (findById s' j) = map_option version (findById s j)"
proof -
  show "versionsConsistent s'"
    unfolding versionsConsistent_def
  proof
    fix k
    from assms(1) have "case articles s k of None \<Rightarrow> versionFiles s k = Map.empty
        | Some a \<Rightarrow> aid a = k \<and> dom (versionFiles s k) = {1..version a}"
      unfolding versionsConsistent_def by (rule spec)
    with assms(2) assms(3) [of k]
    show "case articles s' k of None \<Rightarrow> versionFiles s' k = Map.empty
          | Some a \<Rightarrow> aid a = k \<and> dom (versionFiles s' k) = {1..version a}"
      by (auto split: option.splits)
  qed
  from assms(2) show "versionCount s' j = versionCount s j" by (simp add: versionCount_def)
  from assms(3) [of j] show "map_option version (findById s' j) = map_option version (findById s j)"
    by (auto simp: findById_def split: option.splits)
qed

lemma getById_articles:
  "versionFiles (snd (getById s now i user)) = versionFiles s
   \<and> (case articles s j of None \<Rightarrow> articles (snd (getById s now i user)) j = None
       | Some a \<Rightarrow> (\<exists>a'. articles (snd (getById s now i user)) j = Some a'
                       \<and> aid a' = aid a \<and> version a' = version a))"
  by (auto simp: getById_def incrementViewCount_def findById_def Let_def
      split: option.splits)

text \<open>
  The version protocol, for calls that leave the id alone. The empty store is consistent,
  and in a consistent state (every article stored under its own id, with version files
  numbered exactly 1 to its \<open>version\<close>) an article's \<open>version\<close> is the number of its
  version records. From such a state: a successful create under an unused id gives a
  consistent state in which the new article has version 1 and one record, numbered 1;
  each successful publish, archive, soft delete, restore from trash and restore to a
  version, and each successful update whose input has no key \<open>id\<close>, gives a consistent
  state in which the article's version and its number of records are both one higher,
  with a record carrying the new number stored under it; and \<open>getById\<close>, which
  increments the view count of a published article, changes neither.
\<close>

lemma version_protocol_keeping_id:
  "versionsConsistent emptyState
   \<and> (versionsConsistent s \<longrightarrow>
       (\<forall>a. findById s articleId = Some a \<longrightarrow> versionCount s articleId = version a)
       \<and> (\<forall>a s'. findById s newId = None
             \<and> ArticleService_create s now newId vid input user = (Inr a, s') \<longrightarrow>
            versionsConsistent s' \<and> version a = 1 \<and> findById s' newId = Some a
            \<and> versionCount s' newId = 1
            \<and> map_option v_version (getVersion s' newId 1) = Some 1)
       \<and> (\<forall>a s'. findById s articleId = Some a \<and> keepsId m
             \<and> mutate s now vid articleId user m = (True, s') \<longrightarrow>
            versionsConsistent s'
            \<and> map_option version (findById s' articleId) = Some (version a + 1)
            \<and> versionCount s' articleId = versionCount s articleId + 1
            \<and> versionCount s' articleId = version a + 1
            \<and> map_option v_version (getVersion s' articleId (version a + 1))
                = Some (version a + 1))
       \<and> versionsConsistent (snd (getById s now articleId user))
       \<and> (\<forall>j. versionCount (snd (getById s now articleId user)) j = versionCount s j
            \<and> map_option version (findById (snd (getById s now articleId user)) j)
                = map_option version (findById s j)))"
proof (intro conjI impI allI)
  show "versionsConsistent emptyState"
    by (simp add: versionsConsistent_def emptyState_def)
next
  fix a assume "versionsConsistent s" "findById s articleId = Some a"
  then show "versionCount s articleId = version a" by (rule consistent_count)
next
  fix a s'
  assume c: "versionsConsistent s"
    and h: "findById s newId = None
             \<and> ArticleService_create s now newId vid input user = (Inr a, s')"
  then have f: "findById s newId = None"
    and r: "ArticleService_create s now newId vid input user = (Inr a, s')"
    by simp_all
  show "versionsConsistent s'" by (rule create_consistent(1) [OF c f r])
  show "version a = 1" by (rule create_consistent(2) [OF c f r])
  show "findById s' newId = Some a" by (rule create_consistent(3) [OF c f r])
  show "versionCount s' newId = 1" by (rule create_consistent(4) [OF c f r])
  show "map_option v_version (getVersion s' newId 1) = Some 1"
    by (rule create_consistent(5) [OF c f r])
next
  fix a s'
  assume c: "versionsConsistent s"
    and h: "findById s articleId = Some a \<and> keepsId m
             \<and> mutate s now vid articleId user m = (True, s')"
  then have f: "findById s articleId = Some a" and k: "keepsId m"
    and r: "mutate s now vid articleId user m = (True, s')"
    by simp_all
  from mutate_outcome [OF r k] f obtain a' v where b: "snapshotAdded s s' a a' v"
    by auto
  note facts = snapshotAdded_consistent [OF c f b]
  from b have va: "version a' = version a + 1" "v_version v = version a + 1"
    by (simp_all add: snapshotAdded_def)
  show "versionsConsistent s'" by (rule facts(1))
  show "map_option version (findById s' articleId) = Some (version a + 1)"
    using facts(2) va by simp
  show "versionCount s' articleId = versionCount s articleId + 1" by (rule facts(3))
  show "versionCount s' articleId = version a + 1"
    using facts(3) consistent_count [OF c f] by simp
  show "map_option v_version (getVersion s' articleId (version a + 1)) = Some (version a + 1)"
    using facts(4) va by simp
next
  assume c: "versionsConsistent s"
  note g = getById_articles [of s now articleId user]
  show "versionsConsistent (snd (getById s now articleId user))"
    by (rule unchanged_consistent(1) [OF c conjunct1 [OF g] conjunct2 [OF g]])
  fix j
  show "versionCount (snd (getById s now articleId user)) j = versionCount s j"
    by (rule unchanged_consistent(2) [OF c conjunct1 [OF g] conjunct2 [OF g]])
  show "map_option version (findById (snd (getById s now articleId user)) j)
                = map_option version (findById s j)"
    by (rule unchanged_consistent(3) [OF c conjunct1 [OF g] conjunct2 [OF g]])
qed

lemma create_in_emptyState:
  "ArticleService_create emptyState 1000 ''a1'' ''v-1'' exampleInput alice
     = (Inr (articleA1 draft), createdState)"
  by (simp add: ArticleService_create_def hasPermission_def validateArticleInput_def
      asUpdateInput_def orEmpty_def TITLE_MIN_LENGTH_def TITLE_MAX_LENGTH_def
      DESCRIPTION_MIN_LENGTH_def DESCRIPTION_MAX_LENGTH_def CATEGORY_MAX_LENGTH_def
      MAX_TAGS_def TAG_MAX_LENGTH_def MAX_RELATED_ARTICLES_def
      FileArticleRepository_create_def createVersion_def updateArticleCount_def
      findCategory_def Let_def emptyState_def createdState_def stateA1_def snapshotA1_def
      articleA1_def exampleInput_def alice_def)

lemma createdState_facts:
  "findById createdState ''a1'' = Some (articleA1 draft)"
  "lockFiles createdState ''a1'' = None"
  "findById createdState ''b1'' = None"
  "versionFiles createdState ''a1'' = [1 \<mapsto> snapshotA1 draft]"
  "versionFiles createdState ''b1'' = Map.empty"
  by (simp_all add: createdState_def stateA1_def findById_def)

lemma createdState_consistent: "versionsConsistent createdState"
proof -
  have c0: "versionsConsistent emptyState"
    by (simp add: versionsConsistent_def emptyState_def)
  have e: "findById emptyState ''a1'' = None" by (simp add: findById_def emptyState_def)
  show ?thesis by (rule create_consistent(1) [OF c0 e create_in_emptyState])
qed

lemma spreadInput_idInput: "spreadInput a (idInput j) = a\<lparr>aid := j\<rparr>"
  by (simp add: spreadInput_def idInput_def noInput_def)

text \<open>
  Claim C2, where the code departs from it. An article \<open>a\<close> is stored at \<open>i\<close>, no lock
  covers it, and the caller may edit it. The update that addresses \<open>i\<close> with the body
  \<open>{"id": j}\<close>, \<open>j\<close> another id, succeeds and returns the article with the id \<open>j\<close> and the
  next version number. The repository saves that copy under \<open>j\<close> and the snapshot goes
  to the version directory of \<open>j\<close>: the article stored at \<open>i\<close> keeps its version and
  its version records, so the successful update has neither incremented the one nor
  added to the others, and the record at \<open>j\<close> has the version of \<open>a\<close> plus one with the
  single new snapshot added to whatever the directory of \<open>j\<close> held.
\<close>

theorem update_id_key_version_count:
  assumes "findById s i = Some a"
    and "hasPermission user article_edit_all
           \<or> hasPermission user article_edit_own \<and> authorId a = uid user"
    and "lockFiles s i = None" and "j \<noteq> i"
  shows "\<exists>s'. ArticleService_update s now vid i (idInput j) user reason
            = (Inr (a\<lparr>aid := j, updatedAt := now, version := version a + 1\<rparr>), s')
          \<and> findById s' i = Some a
          \<and> versionFiles s' i = versionFiles s i
          \<and> findById s' j = Some (a\<lparr>aid := j, updatedAt := now, version := version a + 1\<rparr>)
          \<and> versionFiles s' j = (versionFiles s j)(version a + 1 \<mapsto>
               createVersionFromArticle
                 (a\<lparr>aid := j, updatedAt := now, version := version a + 1\<rparr>)
                 (uid user) (displayName user) reason now vid)"
proof -
  let ?a' = "a\<lparr>aid := j, updatedAt := now, version := version a + 1\<rparr>"
  have v: "validateArticleInput (idInput j) False = []"
    by (simp add: validateArticleInput_def idInput_def noInput_def orEmpty_def)
  have c: "u_category (idInput j) = None" "u_status (idInput j) = None"
    by (simp_all add: idInput_def noInput_def)
  have l: "getLockStatus s now i (uid user)
      = (\<lparr> isLocked = False, ls_lock = None, canEdit = True, ls_message = None \<rparr>, s)"
    using assms(3) by (simp add: getLockStatus_def loadLock_def)
  have r: "ArticleService_update s now vid i (idInput j) user reason
      = (Inr ?a', snd (createVersion (s\<lparr>articles := (articles s)(j \<mapsto> ?a')\<rparr>) now vid ?a'
                         (uid user) (displayName user) reason))"
    using assms(1,2)
    by (auto simp: ArticleService_update_def Let_def l v c orEmpty_def case_prod_beta
        FileArticleRepository_update_found spreadInput_idInput)
  show ?thesis
    using assms(1,4)
    by (simp add: r findById_def versionFiles_createVersion)
qed

theorem update_id_key_version_count_witness:
  "versionsConsistent createdState
   \<and> findById createdState ''a1'' = Some (articleA1 draft)
   \<and> versionCount createdState ''a1'' = 1
   \<and> findById createdState ''b1'' = None
   \<and> hasPermission alice article_edit_own \<and> authorId (articleA1 draft) = uid alice
   \<and> lockFiles createdState ''a1'' = None
   \<and> succeeded (ArticleService_update createdState 2000 ''v-2'' ''a1'' (idInput ''b1'') alice None)
   \<and> map_option version
        (findById (snd (ArticleService_update createdState 2000 ''v-2'' ''a1'' (idInput ''b1'')
           alice None)) ''a1'') = Some 1
   \<and> versionCount (snd (ArticleService_update createdState 2000 ''v-2'' ''a1'' (idInput ''b1'')
        alice None)) ''a1'' = 1
   \<and> map_option version
        (findById (snd (ArticleService_update createdState 2000 ''v-2'' ''a1'' (idInput ''b1'')
           alice None)) ''b1'') = Some 2
   \<and> versionCount (snd (ArticleService_update createdState 2000 ''v-2'' ''a1'' (idInput ''b1'')
        alice None)) ''b1'' = 1
   \<and> getVersion (snd (ArticleService_update createdState 2000 ''v-2'' ''a1'' (idInput ''b1'')
        alice None)) ''a1'' 2 = None
   \<and> \<not> versionsConsistent (snd (ArticleService_update createdState 2000 ''v-2'' ''a1''
          (idInput ''b1'') alice None))"
proof -
  have p: "hasPermission alice article_edit_all
           \<or> hasPermission alice article_edit_own \<and> authorId (articleA1 draft) = uid alice"
    by (simp add: alice_permissions stateA1_facts)
  have ne: "''b1'' \<noteq> ''a1''" by simp
  note t = update_id_key_version_count [where s = createdState and i = "''a1''"
      and a = "articleA1 draft" and user = alice and j = "''b1''" and now = 2000
      and vid = "''v-2''" and reason = None,
      OF createdState_facts(1) p createdState_facts(2) ne]
  from t obtain s' where
    r: "ArticleService_update createdState 2000 ''v-2'' ''a1'' (idInput ''b1'') alice None
        = (Inr ((articleA1 draft)\<lparr>aid := ''b1'', updatedAt := 2000,
                  version := version (articleA1 draft) + 1\<rparr>), s')"
    and fa: "findById s' ''a1'' = Some (articleA1 draft)"
    and va: "versionFiles s' ''a1'' = versionFiles createdState ''a1''"
    and fb: "findById s' ''b1''
        = Some ((articleA1 draft)\<lparr>aid := ''b1'', updatedAt := 2000,
                  version := version (articleA1 draft) + 1\<rparr>)"
    and vb: "versionFiles s' ''b1'' = (versionFiles createdState ''b1'')
        (version (articleA1 draft) + 1 \<mapsto>
           createVersionFromArticle
             ((articleA1 draft)\<lparr>aid := ''b1'', updatedAt := 2000,
                version := version (articleA1 draft) + 1\<rparr>)
             (uid alice) (displayName alice) None 2000 ''v-2'')"
    by blast
  have n1: "versionCount createdState ''a1'' = 1"
    by (simp add: versionCount_def createdState_facts)
  have na: "versionCount s' ''a1'' = 1"
    by (simp add: versionCount_def va createdState_facts)
  have nb: "versionCount s' ''b1'' = 1"
    by (simp add: versionCount_def vb createdState_facts)
  have ga: "getVersion s' ''a1'' 2 = None"
    by (simp add: getVersion_def va createdState_facts)
  have bad: "\<not> versionsConsistent s'"
  proof
    assume "versionsConsistent s'"
    from consistent_count [OF this fb] nb show False
      by (simp add: stateA1_facts)
  qed
  show ?thesis
    using createdState_consistent n1 fa fb na nb ga bad
    by (simp add: r succeeded_def createdState_facts alice_permissions stateA1_facts
        numeral_2_eq_2)
qed

subsection \<open>The role gate of the routes\<close>

text \<open>
  The routes put \<open>requireRole\<close> in front of the controllers: a reader or an actor who
  posts an article is turned away there with the unauthorized error (HTTP 401), before
  \<open>ArticleService.create\<close> and its forbidden error are reached.
\<close>

lemma POST_articles_below_author:
  "role user = reader \<or> role user = actor \<Longrightarrow>
   POST_articles s now newId vid body user
     = (Inl (UnauthorizedError ''This action requires author role or higher''), s)"
  by (auto simp: POST_articles_def requireRole_def)

end
